theory Spec2Isabelle
  imports Complex_Main
begin

section \<open>Data model\<close>

text \<open>
  The component \<open>VonMisesTube\<close> of \<open>openaerostruct/structures/vonmises_tube.py\<close>.
  Without the compiled module \<open>OAS_API\<close> the module sets \<open>data_type = complex\<close>, and the
  loop of \<open>compute\<close> runs on complex arrays; scalars are therefore complex numbers, and
  \<open>np.sqrt\<close> is the principal square root \<open>csqrt\<close>. Floating-point rounding is not
  modelled: arithmetic is that of the field of complex numbers.

  Arrays keep the shapes the component declares: a row of \<open>nodes[ny, 3]\<close> is a triple, a row
  of \<open>disp[ny, 6]\<close> is the pair of its slices \<open>[:3]\<close> and \<open>[3:]\<close>, a row of
  \<open>vonmises[ny-1, 2]\<close> is a pair. The first axis, whose extent \<open>ny\<close> is set at run time,
  is a list, and reading or writing past its end is the \<open>IndexError\<close> of numpy.
\<close>

type_synonym vec3 = "complex \<times> complex \<times> complex"
type_synonym vec6 = "vec3 \<times> vec3"
type_synonym mat3 = "vec3 \<times> vec3 \<times> vec3"
type_synonym stress = "complex \<times> complex"

datatype error = IndexError | NameError | ValueError

record surface =
  num_y :: nat
  surf_E :: complex
  surf_G :: complex

record component =
  self_ny :: nat
  self_E :: complex
  self_G :: complex
  self_T :: mat3
  self_x_gl :: vec3

record inputs =
  nodes :: "vec3 list"
  radius :: "complex list"
  disp :: "vec6 list"

record outputs =
  vonmises :: "stress list"

text \<open>\<open>initialize_variables\<close>: the attributes of the component, from the surface dictionary.\<close>

definition initialize_variables :: "surface \<Rightarrow> component" where
  "initialize_variables s =
     \<lparr> self_ny = num_y s, self_E = surf_E s, self_G = surf_G s,
       self_T = ((0, 0, 0), (0, 0, 0), (0, 0, 0)),
       self_x_gl = (1, 0, 0) \<rparr>"

section \<open>Array operations of numpy\<close>

definition bind_err :: "error + 'a \<Rightarrow> ('a \<Rightarrow> error + 'b) \<Rightarrow> error + 'b" where
  "bind_err m f = (case m of Inl e \<Rightarrow> Inl e | Inr x \<Rightarrow> f x)"

text \<open>\<open>a[i]\<close> and \<open>a[i] = v\<close> for an index \<open>i \<ge> 0\<close> along the first axis.\<close>

definition getitem :: "'a list \<Rightarrow> nat \<Rightarrow> error + 'a" where
  "getitem xs i = (if i < length xs then Inr (xs ! i) else Inl IndexError)"

definition setitem :: "'a list \<Rightarrow> nat \<Rightarrow> 'a \<Rightarrow> error + 'a list" where
  "setitem xs i v = (if i < length xs then Inr (xs[i := v]) else Inl IndexError)"

fun sub3 :: "vec3 \<Rightarrow> vec3 \<Rightarrow> vec3" where
  "sub3 (a0, a1, a2) (b0, b1, b2) = (a0 - b0, a1 - b1, a2 - b2)"

text \<open>\<open>np.dot\<close> of two vectors: the sum of the products, without conjugation.\<close>

fun dot3 :: "vec3 \<Rightarrow> vec3 \<Rightarrow> complex" where
  "dot3 (a0, a1, a2) (b0, b1, b2) = a0 * b0 + a1 * b1 + a2 * b2"

fun cross :: "vec3 \<Rightarrow> vec3 \<Rightarrow> vec3" where
  "cross (a0, a1, a2) (b0, b1, b2) =
     (a1 * b2 - a2 * b1, a2 * b0 - a0 * b2, a0 * b1 - a1 * b0)"

text \<open>\<open>T.dot(v)\<close>: the product of the matrix with rows \<open>t0, t1, t2\<close> and the vector \<open>v\<close>.\<close>

fun mat_dot :: "mat3 \<Rightarrow> vec3 \<Rightarrow> vec3" where
  "mat_dot (t0, t1, t2) v = (dot3 t0 v, dot3 t1 v, dot3 t2 v)"

text \<open>The row assignments \<open>T[0, :] = v\<close>, \<open>T[1, :] = v\<close>, \<open>T[2, :] = v\<close>.\<close>

fun set_row0 :: "mat3 \<Rightarrow> vec3 \<Rightarrow> mat3" where
  "set_row0 (t0, t1, t2) v = (v, t1, t2)"

fun set_row1 :: "mat3 \<Rightarrow> vec3 \<Rightarrow> mat3" where
  "set_row1 (t0, t1, t2) v = (t0, v, t2)"

fun set_row2 :: "mat3 \<Rightarrow> vec3 \<Rightarrow> mat3" where
  "set_row2 (t0, t1, t2) v = (t0, t1, v)"

section \<open>The helpers of \<open>openaerostruct.structures.utils\<close>\<close>

text \<open>
  Modelled from the spec: \<open>norm\<close> is imported from
  \<open>openaerostruct/structures/utils.py\<close>, which is not among the sources. The spec gives
  \<open>L = |P1 - P0|\<close>, the Euclidean norm, taken as the square root of the sum of squares
  (no \<open>abs\<close>, so that it stays valid on complex arrays). On real vectors it is the
  usual length.
\<close>

fun norm_vec :: "vec3 \<Rightarrow> complex" where
  "norm_vec (a0, a1, a2) = csqrt (a0\<^sup>2 + a1\<^sup>2 + a2\<^sup>2)"

text \<open>
  Modelled from the spec: \<open>unit\<close> of \<open>utils.py\<close>, not among the sources;
  \<open>unit(v) = v / |v|\<close>, every entry divided by the norm. Division is that of the field,
  total with \<open>x / 0 = 0\<close>; the statements on this model are about elements whose norms
  are not zero, and \<open>nf_unit\<close> below keeps the non-finite outcome of a zero norm.
\<close>

fun unit :: "vec3 \<Rightarrow> vec3" where
  "unit (a0, a1, a2) =
     (a0 / norm_vec (a0, a1, a2), a1 / norm_vec (a0, a1, a2), a2 / norm_vec (a0, a1, a2))"

section \<open>\<open>compute\<close>\<close>

text \<open>
  The state that \<open>compute\<close> works on: the component (whose scratch matrix \<open>self.T\<close> the
  loop writes), the input arrays and the output array (written row by row).
\<close>

type_synonym state = "component \<times> inputs \<times> outputs"

text \<open>One pass through the body of the loop \<open>for ielem in range(self.ny-1)\<close>.\<close>

definition elem_step :: "nat \<Rightarrow> state \<Rightarrow> error + state" where
  "elem_step ielem s =
     (case s of (self, inp, out) \<Rightarrow>
      bind_err (getitem (nodes inp) ielem) (\<lambda>P0.
      bind_err (getitem (nodes inp) (ielem + 1)) (\<lambda>P1.
      let L = norm_vec (sub3 P1 P0);
          x_loc = unit (sub3 P1 P0);
          y_loc = unit (cross x_loc (self_x_gl self));
          z_loc = unit (cross x_loc y_loc);
          self = self\<lparr>self_T := set_row0 (self_T self) x_loc\<rparr>;
          self = self\<lparr>self_T := set_row1 (self_T self) y_loc\<rparr>;
          self = self\<lparr>self_T := set_row2 (self_T self) z_loc\<rparr>
      in
      bind_err (getitem (disp inp) ielem) (\<lambda>d0.
      bind_err (getitem (disp inp) (ielem + 1)) (\<lambda>d1.
      let (u0x, u0y, u0z) = mat_dot (self_T self) (fst d0);
          (r0x, r0y, r0z) = mat_dot (self_T self) (snd d0);
          (u1x, u1y, u1z) = mat_dot (self_T self) (fst d1);
          (r1x, r1y, r1z) = mat_dot (self_T self) (snd d1);
          tmp = csqrt ((r1y - r0y)\<^sup>2 + (r1z - r0z)\<^sup>2)
      in
      bind_err (getitem (radius inp) ielem) (\<lambda>r.
      let sxx0 = self_E self * (u1x - u0x) / L + self_E self * r / L * tmp;
          sxx1 = self_E self * (u0x - u1x) / L + self_E self * r / L * tmp;
          sxt = self_G self * r * (r1x - r0x) / L
      in
      bind_err (getitem (vonmises out) ielem) (\<lambda>row.
      bind_err (setitem (vonmises out) ielem (csqrt (sxx0\<^sup>2 + sxt\<^sup>2), snd row)) (\<lambda>vm.
      bind_err (getitem vm ielem) (\<lambda>row.
      bind_err (setitem vm ielem (fst row, csqrt (sxx1\<^sup>2 + sxt\<^sup>2))) (\<lambda>vm.
      Inr (self, inp, out\<lparr>vonmises := vm\<rparr>)))))))))))"

fun compute_loop :: "nat list \<Rightarrow> state \<Rightarrow> error + state" where
  "compute_loop [] s = Inr s"
| "compute_loop (ielem # rest) s = bind_err (elem_step ielem s) (compute_loop rest)"

text \<open>
  The compiled module \<open>OAS_API\<close> is not among the sources; its three routines are
  parameters. \<open>None\<close> stands for the failed import (\<open>fortran_flag = False\<close>). The derivative
  routines receive the real parts of the arrays and real seeds.
\<close>

type_synonym rvec3 = "real \<times> real \<times> real"
type_synonym rvec6 = "rvec3 \<times> rvec3"
type_synonym rstress = "real \<times> real"

record oas_api =
  calc_vonmises ::
    "vec3 list \<Rightarrow> complex list \<Rightarrow> vec6 list \<Rightarrow> complex \<Rightarrow> complex \<Rightarrow> vec3 \<Rightarrow> stress list"
  calc_vonmises_d ::
    "rvec3 list \<Rightarrow> rvec3 list \<Rightarrow> real list \<Rightarrow> real list \<Rightarrow> rvec6 list \<Rightarrow> rvec6 list \<Rightarrow>
     complex \<Rightarrow> complex \<Rightarrow> vec3 \<Rightarrow> rstress list \<times> rstress list"
  calc_vonmises_b ::
    "rvec3 list \<Rightarrow> real list \<Rightarrow> rvec6 list \<Rightarrow> complex \<Rightarrow> complex \<Rightarrow> vec3 \<Rightarrow>
     rstress list \<Rightarrow> rstress list \<Rightarrow> rvec3 list \<times> real list \<times> rvec6 list"

definition compute :: "oas_api option \<Rightarrow> state \<Rightarrow> error + state" where
  "compute api s =
     (case s of (self, inp, out) \<Rightarrow>
      (case api of
         Some a \<Rightarrow>
           Inr (self, inp,
                out\<lparr>vonmises := calc_vonmises a (nodes inp) (radius inp) (disp inp)
                                   (self_E self) (self_G self) (self_x_gl self)\<rparr>)
       | None \<Rightarrow> compute_loop [0 ..< self_ny self - 1] s))"


section \<open>\<open>compute_jacvec_product\<close>\<close>

record d_inputs =
  d_nodes :: "rvec3 list"
  d_radius :: "real list"
  d_disp :: "rvec6 list"

record d_outputs =
  d_vonmises :: "rstress list"

text \<open>The attribute \<open>.real\<close> of the arrays, row by row.\<close>

fun re2 :: "stress \<Rightarrow> rstress" where
  "re2 (a, b) = (Re a, Re b)"

fun re3 :: "vec3 \<Rightarrow> rvec3" where
  "re3 (a, b, c) = (Re a, Re b, Re c)"

fun re6 :: "vec6 \<Rightarrow> rvec6" where
  "re6 (u, r) = (re3 u, re3 r)"

fun add2 :: "rstress \<Rightarrow> rstress \<Rightarrow> rstress" where
  "add2 (a0, a1) (b0, b1) = (a0 + b0, a1 + b1)"

fun add3 :: "rvec3 \<Rightarrow> rvec3 \<Rightarrow> rvec3" where
  "add3 (a0, a1, a2) (b0, b1, b2) = (a0 + b0, a1 + b1, a2 + b2)"

fun add6 :: "rvec6 \<Rightarrow> rvec6 \<Rightarrow> rvec6" where
  "add6 (a, b) (c, d) = (add3 a c, add3 b d)"

text \<open>
  \<open>acc += arr\<close>, with \<open>add\<close> the sum of two rows. Along the first axis numpy adds row
  by row when the extents agree, adds the one row of \<open>arr\<close> to every row of \<open>acc\<close> when
  \<open>arr\<close> has extent 1 (broadcasting), and raises \<open>ValueError\<close> otherwise.
\<close>

definition iadd :: "('a \<Rightarrow> 'a \<Rightarrow> 'a) \<Rightarrow> 'a list \<Rightarrow> 'a list \<Rightarrow> error + 'a list" where
  "iadd add acc arr =
     (if length acc = length arr then Inr (map2 add acc arr)
      else if length arr = 1 then Inr (map (\<lambda>row. add row (arr ! 0)) acc)
      else Inl ValueError)"

type_synonym dstate = "d_inputs \<times> d_outputs"

definition compute_jacvec_product ::
  "oas_api option \<Rightarrow> component \<Rightarrow> inputs \<Rightarrow> outputs \<Rightarrow> string \<Rightarrow> dstate \<Rightarrow> error + dstate" where
  "compute_jacvec_product api self inp out mode ds =
     (let radius = map Re (radius inp);
          disp = map re6 (disp inp);
          nodes = map re3 (nodes inp);
          vonmises = map re2 (vonmises out);
          E = self_E self;
          G = self_G self;
          x_gl = self_x_gl self
      in
      bind_err
        (case ds of (din, dout) \<Rightarrow>
          if mode = ''fwd'' then
            (case api of
               None \<Rightarrow> Inl NameError
             | Some a \<Rightarrow>
                 let vonmisesd =
                       snd (calc_vonmises_d a nodes (d_nodes din) radius (d_radius din)
                              disp (d_disp din) E G x_gl)
                 in bind_err (iadd add2 (d_vonmises dout) vonmisesd) (\<lambda>v.
                    Inr (din, dout\<lparr>d_vonmises := v\<rparr>)))
          else Inr (din, dout))
        (\<lambda>ds. case ds of (din, dout) \<Rightarrow>
          if mode = ''rev'' then
            (case api of
               None \<Rightarrow> Inl NameError
             | Some a \<Rightarrow>
                 (case calc_vonmises_b a nodes radius disp E G x_gl vonmises (d_vonmises dout) of
                    (nodesb, radiusb, dispb) \<Rightarrow>
                      bind_err (iadd add3 (d_nodes din) nodesb) (\<lambda>dn.
                      bind_err (iadd (+) (d_radius din) radiusb) (\<lambda>dr.
                      bind_err (iadd add6 (d_disp din) dispb) (\<lambda>dd.
                      Inr (din\<lparr>d_nodes := dn, d_radius := dr, d_disp := dd\<rparr>, dout))))))
          else Inr (din, dout)))"

section \<open>Notions used in the statements\<close>

text \<open>
  The frame that one pass of the loop leaves in \<open>self.T\<close>, and the pair it stores in
  \<open>vonmises[ielem]\<close>, as functions of the data of the element.
\<close>

definition frame :: "vec3 \<Rightarrow> vec3 \<Rightarrow> vec3 \<Rightarrow> mat3" where
  "frame P0 P1 g =
     (let x_loc = unit (sub3 P1 P0);
          y_loc = unit (cross x_loc g);
          z_loc = unit (cross x_loc y_loc)
      in (x_loc, y_loc, z_loc))"

definition elem_stress ::
  "complex \<Rightarrow> complex \<Rightarrow> vec3 \<Rightarrow> vec3 \<Rightarrow> vec3 \<Rightarrow> complex \<Rightarrow> vec6 \<Rightarrow> vec6 \<Rightarrow> stress" where
  "elem_stress E G g P0 P1 r d0 d1 =
     (let L = norm_vec (sub3 P1 P0);
          T = frame P0 P1 g;
          (u0x, u0y, u0z) = mat_dot T (fst d0);
          (r0x, r0y, r0z) = mat_dot T (snd d0);
          (u1x, u1y, u1z) = mat_dot T (fst d1);
          (r1x, r1y, r1z) = mat_dot T (snd d1);
          tmp = csqrt ((r1y - r0y)\<^sup>2 + (r1z - r0z)\<^sup>2);
          sxx0 = E * (u1x - u0x) / L + E * r / L * tmp;
          sxx1 = E * (u0x - u1x) / L + E * r / L * tmp;
          sxt = G * r * (r1x - r0x) / L
      in (csqrt (sxx0\<^sup>2 + sxt\<^sup>2), csqrt (sxx1\<^sup>2 + sxt\<^sup>2)))"

definition elem_at :: "component \<Rightarrow> inputs \<Rightarrow> nat \<Rightarrow> stress" where
  "elem_at self inp i =
     elem_stress (self_E self) (self_G self) (self_x_gl self)
       (nodes inp ! i) (nodes inp ! (i + 1)) (radius inp ! i) (disp inp ! i) (disp inp ! (i + 1))"

definition in_range :: "inputs \<Rightarrow> outputs \<Rightarrow> nat \<Rightarrow> bool" where
  "in_range inp out i \<longleftrightarrow>
     i + 1 < length (nodes inp) \<and> i + 1 < length (disp inp) \<and>
     i < length (radius inp) \<and> i < length (vonmises out)"

definition last_T :: "component \<Rightarrow> inputs \<Rightarrow> nat list \<Rightarrow> mat3" where
  "last_T self inp js =
     (if js = [] then self_T self
      else frame (nodes inp ! last js) (nodes inp ! (last js + 1)) (self_x_gl self))"

text \<open>The shapes that \<open>initialize_variables\<close> declares for the arrays.\<close>

definition shaped :: "component \<Rightarrow> inputs \<Rightarrow> outputs \<Rightarrow> bool" where
  "shaped self inp out \<longleftrightarrow>
     length (nodes inp) = self_ny self \<and> length (disp inp) = self_ny self \<and>
     length (radius inp) = self_ny self - 1 \<and> length (vonmises out) = self_ny self - 1"

text \<open>
  Well-posed geometry of an element. The nodes are points of space: their coordinates are
  real numbers, held in a complex array. The end points are distinct, and the axis is not
  parallel to the global axis \<open>x_gl = (1, 0, 0)\<close>: its cross product with it is not zero.
\<close>

fun real_vec :: "vec3 \<Rightarrow> bool" where
  "real_vec (a, b, c) \<longleftrightarrow> Im a = 0 \<and> Im b = 0 \<and> Im c = 0"

definition well_posed :: "vec3 \<Rightarrow> vec3 \<Rightarrow> bool" where
  "well_posed P0 P1 \<longleftrightarrow>
     real_vec P0 \<and> real_vec P1 \<and> P0 \<noteq> P1 \<and> cross (sub3 P1 P0) (1, 0, 0) \<noteq> (0, 0, 0)"

fun real_mat :: "mat3 \<Rightarrow> bool" where
  "real_mat (x, y, z) \<longleftrightarrow> real_vec x \<and> real_vec y \<and> real_vec z"

definition orthonormal :: "mat3 \<Rightarrow> bool" where
  "orthonormal T =
     (case T of (x, y, z) \<Rightarrow>
        norm_vec x = 1 \<and> norm_vec y = 1 \<and> norm_vec z = 1 \<and>
        dot3 x y = 0 \<and> dot3 x z = 0 \<and> dot3 y z = 0)"


section \<open>The closed form of the specification\<close>

text \<open>
  The stress pair of one element as the specification words it: the end displacements are
  rotated into the frame of the element, and the bending, normal and shear terms are
  combined. Written from the specification, to be compared with what \<open>compute\<close> stores.
\<close>

fun x_of :: "vec3 \<Rightarrow> complex" where
  "x_of (a, b, c) = a"

fun y_of :: "vec3 \<Rightarrow> complex" where
  "y_of (a, b, c) = b"

fun z_of :: "vec3 \<Rightarrow> complex" where
  "z_of (a, b, c) = c"

definition spec_local :: "mat3 \<Rightarrow> vec6 \<Rightarrow> vec6" where
  "spec_local T d = (mat_dot T (fst d), mat_dot T (snd d))"

definition spec_bend :: "vec6 \<Rightarrow> vec6 \<Rightarrow> complex" where
  "spec_bend l0 l1 =
     csqrt ((y_of (snd l1) - y_of (snd l0))\<^sup>2 + (z_of (snd l1) - z_of (snd l0))\<^sup>2)"

definition spec_sigma0 :: "complex \<Rightarrow> complex \<Rightarrow> complex \<Rightarrow> vec6 \<Rightarrow> vec6 \<Rightarrow> complex" where
  "spec_sigma0 E L r l0 l1 =
     E * (x_of (fst l1) - x_of (fst l0)) / L + E * r / L * spec_bend l0 l1"

definition spec_sigma1 :: "complex \<Rightarrow> complex \<Rightarrow> complex \<Rightarrow> vec6 \<Rightarrow> vec6 \<Rightarrow> complex" where
  "spec_sigma1 E L r l0 l1 =
     E * (x_of (fst l0) - x_of (fst l1)) / L + E * r / L * spec_bend l0 l1"

definition spec_shear :: "complex \<Rightarrow> complex \<Rightarrow> complex \<Rightarrow> vec6 \<Rightarrow> vec6 \<Rightarrow> complex" where
  "spec_shear G L r l0 l1 = G * r * (x_of (snd l1) - x_of (snd l0)) / L"

definition spec_vonmises ::
  "complex \<Rightarrow> complex \<Rightarrow> vec3 \<Rightarrow> vec3 \<Rightarrow> vec3 \<Rightarrow> complex \<Rightarrow> vec6 \<Rightarrow> vec6 \<Rightarrow> stress" where
  "spec_vonmises E G g P0 P1 r d0 d1 =
     (let L = norm_vec (sub3 P1 P0);
          T = frame P0 P1 g;
          l0 = spec_local T d0;
          l1 = spec_local T d1
      in (csqrt ((spec_sigma0 E L r l0 l1)\<^sup>2 + (spec_shear G L r l0 l1)\<^sup>2),
          csqrt ((spec_sigma1 E L r l0 l1)\<^sup>2 + (spec_shear G L r l0 l1)\<^sup>2)))"


section \<open>Notions used in the statements on \<open>compute_jacvec_product\<close>\<close>

text \<open>
  Twice a row, and what one call in each mode adds to the accumulators: the second
  component of the result of \<open>calc_vonmises_d\<close>, and the result of \<open>calc_vonmises_b\<close>.
\<close>

fun scale2 :: "real \<Rightarrow> rstress \<Rightarrow> rstress" where
  "scale2 c (a0, a1) = (c * a0, c * a1)"

fun scale3 :: "real \<Rightarrow> rvec3 \<Rightarrow> rvec3" where
  "scale3 c (a0, a1, a2) = (c * a0, c * a1, c * a2)"

fun scale6 :: "real \<Rightarrow> rvec6 \<Rightarrow> rvec6" where
  "scale6 c (a, b) = (scale3 c a, scale3 c b)"

definition fwd_contribution :: "oas_api \<Rightarrow> component \<Rightarrow> inputs \<Rightarrow> d_inputs \<Rightarrow> rstress list" where
  "fwd_contribution a self inp din =
     snd (calc_vonmises_d a (map re3 (nodes inp)) (d_nodes din) (map Re (radius inp))
            (d_radius din) (map re6 (disp inp)) (d_disp din)
            (self_E self) (self_G self) (self_x_gl self))"

definition rev_contribution ::
  "oas_api \<Rightarrow> component \<Rightarrow> inputs \<Rightarrow> outputs \<Rightarrow> d_outputs \<Rightarrow> rvec3 list \<times> real list \<times> rvec6 list" where
  "rev_contribution a self inp out dout =
     calc_vonmises_b a (map re3 (nodes inp)) (map Re (radius inp)) (map re6 (disp inp))
       (self_E self) (self_G self) (self_x_gl self) (map re2 (vonmises out)) (d_vonmises dout)"


text \<open>
  The arrays as vectors, row by row (the order of numpy's \<open>flatten\<close>), and the dot product
  of two vectors.
\<close>

fun flat2 :: "rstress list \<Rightarrow> real list" where
  "flat2 [] = []"
| "flat2 ((a, b) # xs) = a # b # flat2 xs"

fun flat3 :: "rvec3 list \<Rightarrow> real list" where
  "flat3 [] = []"
| "flat3 ((a, b, c) # xs) = a # b # c # flat3 xs"

fun flat6 :: "rvec6 list \<Rightarrow> real list" where
  "flat6 [] = []"
| "flat6 (((a, b, c), (d, e, f)) # xs) = a # b # c # d # e # f # flat6 xs"

fun unflat2 :: "real list \<Rightarrow> rstress list" where
  "unflat2 (a # b # xs) = (a, b) # unflat2 xs"
| "unflat2 _ = []"

fun unflat3 :: "real list \<Rightarrow> rvec3 list" where
  "unflat3 (a # b # c # xs) = (a, b, c) # unflat3 xs"
| "unflat3 _ = []"

fun unflat6 :: "real list \<Rightarrow> rvec6 list" where
  "unflat6 (a # b # c # d # e # f # xs) = ((a, b, c), (d, e, f)) # unflat6 xs"
| "unflat6 _ = []"

definition dot :: "real list \<Rightarrow> real list \<Rightarrow> real" where
  "dot xs ys = sum_list (map2 (*) xs ys)"

definition flat_in :: "d_inputs \<Rightarrow> real list" where
  "flat_in din = flat3 (d_nodes din) @ d_radius din @ flat6 (d_disp din)"

definition zero_d_inputs :: "inputs \<Rightarrow> d_inputs" where
  "zero_d_inputs inp =
     \<lparr> d_nodes = replicate (length (nodes inp)) (0, 0, 0),
       d_radius = replicate (length (radius inp)) 0,
       d_disp = replicate (length (disp inp)) ((0, 0, 0), (0, 0, 0)) \<rparr>"

definition zero_d_outputs :: "inputs \<Rightarrow> d_outputs" where
  "zero_d_outputs inp = \<lparr> d_vonmises = replicate (length (radius inp)) (0, 0) \<rparr>"


section \<open>The derivative routines, from the specification\<close>

text \<open>
  Modelled from the spec: the routines \<open>calc_vonmises_d\<close> and \<open>calc_vonmises_b\<close> of the
  compiled module \<open>OAS_API\<close> are not among the sources. By sections 4.3 and 4.4 of the
  specification, the forward routine returns the directional derivative of the composite
  function along the tangent of the inputs, that is the product of its Jacobian \<open>J\<close> at
  the input point with the tangent, and the reverse routine returns, for each input array,
  the vector-Jacobian product with the seed on the output, that is the product of the
  transpose of \<open>J\<close> with the seed. The Jacobian at a point is a parameter: \<open>jac \<dots> k j\<close> is
  the derivative of the output entry \<open>k\<close> with respect to the input entry \<open>j\<close>, the inputs
  flattened in the order \<open>nodes\<close>, \<open>radius\<close>, \<open>disp\<close>.
\<close>

type_synonym jacobian =
  "rvec3 list \<Rightarrow> real list \<Rightarrow> rvec6 list \<Rightarrow> complex \<Rightarrow> complex \<Rightarrow> vec3 \<Rightarrow> nat \<Rightarrow> nat \<Rightarrow> real"

text \<open>
  Modelled from the spec: the tangent of the output, \<open>J\<close> applied to the tangent \<open>v\<close> of
  the inputs (section 4.3); \<open>m\<close> is the number of output entries.
\<close>

definition spec_tangent :: "(nat \<Rightarrow> nat \<Rightarrow> real) \<Rightarrow> nat \<Rightarrow> real list \<Rightarrow> real list" where
  "spec_tangent J m v = map (\<lambda>k. \<Sum>j < length v. J k j * v ! j) [0 ..< m]"

text \<open>
  Modelled from the spec: the adjoints of the inputs, the transpose of \<open>J\<close> applied to the
  seed \<open>w\<close> on the output (section 4.4); \<open>n\<close> is the number of input entries.
\<close>

definition spec_adjoint :: "(nat \<Rightarrow> nat \<Rightarrow> real) \<Rightarrow> nat \<Rightarrow> real list \<Rightarrow> real list" where
  "spec_adjoint J n w = map (\<lambda>j. \<Sum>k < length w. J k j * w ! k) [0 ..< n]"

text \<open>
  Modelled from the spec: the three routines of \<open>OAS_API\<close>. The forward routine returns
  the value (\<open>rval\<close>, which \<open>compute_jacvec_product\<close> discards) and the tangent as an
  array of the shape of \<open>vonmises\<close>; the reverse routine returns the adjoints as arrays of
  the shapes of \<open>nodes\<close>, \<open>radius\<close> and \<open>disp\<close>.
\<close>

definition spec_api ::
  "(vec3 list \<Rightarrow> complex list \<Rightarrow> vec6 list \<Rightarrow> complex \<Rightarrow> complex \<Rightarrow> vec3 \<Rightarrow> stress list) \<Rightarrow>
   (rvec3 list \<Rightarrow> real list \<Rightarrow> rvec6 list \<Rightarrow> complex \<Rightarrow> complex \<Rightarrow> vec3 \<Rightarrow> rstress list) \<Rightarrow>
   jacobian \<Rightarrow> oas_api" where
  "spec_api val rval jac =
     \<lparr> calc_vonmises = val,
       calc_vonmises_d = (\<lambda>n nd r rd d dd E G g.
         (rval n r d E G g,
          unflat2 (spec_tangent (jac n r d E G g) (2 * length r) (flat3 nd @ rd @ flat6 dd)))),
       calc_vonmises_b = (\<lambda>n r d E G g vm vmb.
         let grad = spec_adjoint (jac n r d E G g) (3 * length n + length r + 6 * length d)
                      (flat2 vmb)
         in (unflat3 (take (3 * length n) grad),
             take (length r) (drop (3 * length n) grad),
             unflat6 (drop (3 * length n + length r) grad))) \<rparr>"


section \<open>\<open>compute\<close> on scalars that may be non-finite\<close>

text \<open>
  numpy does not raise on a division by zero: it stores \<open>nan\<close> for \<open>0/0\<close> and \<open>inf\<close> for
  \<open>x/0\<close>, and goes on. A scalar here is a complex number or \<open>None\<close>, a non-finite value.
  A division by zero gives \<open>None\<close>, and every operation on \<open>None\<close> gives \<open>None\<close>, as every
  operation of the loop on \<open>nan\<close> gives \<open>nan\<close>; \<open>inf\<close> is not told apart from \<open>nan\<close>. (The
  degenerate elements of the statements below divide a zero vector by its zero norm, so
  that the value is \<open>nan\<close>.) The loop of \<open>compute\<close> is written again on these scalars,
  statement by statement; the input arrays and \<open>E\<close>, \<open>G\<close>, \<open>x_gl\<close> hold finite values.
\<close>

type_synonym nscalar = "complex option"
type_synonym nvec3 = "nscalar \<times> nscalar \<times> nscalar"
type_synonym nmat3 = "nvec3 \<times> nvec3 \<times> nvec3"
type_synonym nstress = "nscalar \<times> nscalar"

fun nf_add :: "nscalar \<Rightarrow> nscalar \<Rightarrow> nscalar" where
  "nf_add (Some x) (Some y) = Some (x + y)"
| "nf_add _ _ = None"

fun nf_sub :: "nscalar \<Rightarrow> nscalar \<Rightarrow> nscalar" where
  "nf_sub (Some x) (Some y) = Some (x - y)"
| "nf_sub _ _ = None"

fun nf_mul :: "nscalar \<Rightarrow> nscalar \<Rightarrow> nscalar" where
  "nf_mul (Some x) (Some y) = Some (x * y)"
| "nf_mul _ _ = None"

fun nf_div :: "nscalar \<Rightarrow> nscalar \<Rightarrow> nscalar" where
  "nf_div (Some x) (Some y) = (if y = 0 then None else Some (x / y))"
| "nf_div _ _ = None"

fun nf_sqrt :: "nscalar \<Rightarrow> nscalar" where
  "nf_sqrt (Some x) = Some (csqrt x)"
| "nf_sqrt None = None"

fun nf_sq :: "nscalar \<Rightarrow> nscalar" where
  "nf_sq (Some x) = Some (x\<^sup>2)"
| "nf_sq None = None"

fun fin3 :: "vec3 \<Rightarrow> nvec3" where
  "fin3 (a0, a1, a2) = (Some a0, Some a1, Some a2)"

fun nf_sub3 :: "nvec3 \<Rightarrow> nvec3 \<Rightarrow> nvec3" where
  "nf_sub3 (a0, a1, a2) (b0, b1, b2) = (nf_sub a0 b0, nf_sub a1 b1, nf_sub a2 b2)"

fun nf_dot3 :: "nvec3 \<Rightarrow> nvec3 \<Rightarrow> nscalar" where
  "nf_dot3 (a0, a1, a2) (b0, b1, b2) =
     nf_add (nf_add (nf_mul a0 b0) (nf_mul a1 b1)) (nf_mul a2 b2)"

fun nf_cross :: "nvec3 \<Rightarrow> nvec3 \<Rightarrow> nvec3" where
  "nf_cross (a0, a1, a2) (b0, b1, b2) =
     (nf_sub (nf_mul a1 b2) (nf_mul a2 b1),
      nf_sub (nf_mul a2 b0) (nf_mul a0 b2),
      nf_sub (nf_mul a0 b1) (nf_mul a1 b0))"

fun nf_mat_dot :: "nmat3 \<Rightarrow> nvec3 \<Rightarrow> nvec3" where
  "nf_mat_dot (t0, t1, t2) v = (nf_dot3 t0 v, nf_dot3 t1 v, nf_dot3 t2 v)"

fun nf_set_row0 :: "nmat3 \<Rightarrow> nvec3 \<Rightarrow> nmat3" where
  "nf_set_row0 (t0, t1, t2) v = (v, t1, t2)"

fun nf_set_row1 :: "nmat3 \<Rightarrow> nvec3 \<Rightarrow> nmat3" where
  "nf_set_row1 (t0, t1, t2) v = (t0, v, t2)"

fun nf_set_row2 :: "nmat3 \<Rightarrow> nvec3 \<Rightarrow> nmat3" where
  "nf_set_row2 (t0, t1, t2) v = (t0, t1, v)"

text \<open>
  Modelled from the spec: \<open>norm\<close> of \<open>utils.py\<close>, not among the sources, on scalars
  that may be non-finite: the square root of the sum of squares.
\<close>

fun nf_norm :: "nvec3 \<Rightarrow> nscalar" where
  "nf_norm (a0, a1, a2) = nf_sqrt (nf_add (nf_add (nf_sq a0) (nf_sq a1)) (nf_sq a2))"

text \<open>
  Modelled from the spec: \<open>unit\<close> of \<open>utils.py\<close>, not among the sources;
  \<open>unit(v) = v / |v|\<close>, non-finite in every entry when \<open>|v| = 0\<close>.
\<close>

fun nf_unit :: "nvec3 \<Rightarrow> nvec3" where
  "nf_unit (a0, a1, a2) =
     (nf_div a0 (nf_norm (a0, a1, a2)), nf_div a1 (nf_norm (a0, a1, a2)),
      nf_div a2 (nf_norm (a0, a1, a2)))"

text \<open>
  The state of the loop: the scratch matrix \<open>self.T\<close> and the output array, both of which
  may come to hold non-finite values. The component gives \<open>ny\<close>, \<open>E\<close>, \<open>G\<close>, \<open>x_gl\<close>.
\<close>

type_synonym nf_state = "nmat3 \<times> nstress list"

definition nf_elem_step :: "component \<Rightarrow> inputs \<Rightarrow> nat \<Rightarrow> nf_state \<Rightarrow> error + nf_state" where
  "nf_elem_step self inp ielem s =
     (case s of (T, vm) \<Rightarrow>
      bind_err (getitem (nodes inp) ielem) (\<lambda>P0.
      bind_err (getitem (nodes inp) (ielem + 1)) (\<lambda>P1.
      let L = nf_norm (nf_sub3 (fin3 P1) (fin3 P0));
          x_loc = nf_unit (nf_sub3 (fin3 P1) (fin3 P0));
          y_loc = nf_unit (nf_cross x_loc (fin3 (self_x_gl self)));
          z_loc = nf_unit (nf_cross x_loc y_loc);
          T = nf_set_row0 T x_loc;
          T = nf_set_row1 T y_loc;
          T = nf_set_row2 T z_loc
      in
      bind_err (getitem (disp inp) ielem) (\<lambda>d0.
      bind_err (getitem (disp inp) (ielem + 1)) (\<lambda>d1.
      let (u0x, u0y, u0z) = nf_mat_dot T (fin3 (fst d0));
          (r0x, r0y, r0z) = nf_mat_dot T (fin3 (snd d0));
          (u1x, u1y, u1z) = nf_mat_dot T (fin3 (fst d1));
          (r1x, r1y, r1z) = nf_mat_dot T (fin3 (snd d1));
          tmp = nf_sqrt (nf_add (nf_sq (nf_sub r1y r0y)) (nf_sq (nf_sub r1z r0z)))
      in
      bind_err (getitem (radius inp) ielem) (\<lambda>r.
      let E = Some (self_E self);
          G = Some (self_G self);
          sxx0 = nf_add (nf_div (nf_mul E (nf_sub u1x u0x)) L)
                        (nf_mul (nf_div (nf_mul E (Some r)) L) tmp);
          sxx1 = nf_add (nf_div (nf_mul E (nf_sub u0x u1x)) L)
                        (nf_mul (nf_div (nf_mul E (Some r)) L) tmp);
          sxt = nf_div (nf_mul (nf_mul G (Some r)) (nf_sub r1x r0x)) L
      in
      bind_err (getitem vm ielem) (\<lambda>row.
      bind_err (setitem vm ielem
                  (nf_sqrt (nf_add (nf_sq sxx0) (nf_sq sxt)), snd row)) (\<lambda>vm.
      bind_err (getitem vm ielem) (\<lambda>row.
      bind_err (setitem vm ielem
                  (fst row, nf_sqrt (nf_add (nf_sq sxx1) (nf_sq sxt)))) (\<lambda>vm.
      Inr (T, vm)))))))))))"

fun nf_compute_loop :: "component \<Rightarrow> inputs \<Rightarrow> nat list \<Rightarrow> nf_state \<Rightarrow> error + nf_state" where
  "nf_compute_loop self inp [] s = Inr s"
| "nf_compute_loop self inp (ielem # rest) s =
     bind_err (nf_elem_step self inp ielem s) (nf_compute_loop self inp rest)"

text \<open>\<open>compute\<close> without the compiled module: the loop over \<open>range(self.ny-1)\<close>.\<close>

definition nf_compute :: "component \<Rightarrow> inputs \<Rightarrow> nf_state \<Rightarrow> error + nf_state" where
  "nf_compute self inp s = nf_compute_loop self inp [0 ..< self_ny self - 1] s"

text \<open>
  What one pass leaves in \<open>self.T\<close> and in \<open>vonmises[ielem]\<close>, as functions of the data of
  the element, and the notions of the statements.
\<close>

definition nf_frame :: "vec3 \<Rightarrow> vec3 \<Rightarrow> vec3 \<Rightarrow> nmat3" where
  "nf_frame P0 P1 g =
     (let x_loc = nf_unit (nf_sub3 (fin3 P1) (fin3 P0));
          y_loc = nf_unit (nf_cross x_loc (fin3 g));
          z_loc = nf_unit (nf_cross x_loc y_loc)
      in (x_loc, y_loc, z_loc))"

definition nf_elem_stress ::
  "complex \<Rightarrow> complex \<Rightarrow> vec3 \<Rightarrow> vec3 \<Rightarrow> vec3 \<Rightarrow> complex \<Rightarrow> vec6 \<Rightarrow> vec6 \<Rightarrow> nstress" where
  "nf_elem_stress E G g P0 P1 r d0 d1 =
     (let L = nf_norm (nf_sub3 (fin3 P1) (fin3 P0));
          T = nf_frame P0 P1 g;
          (u0x, u0y, u0z) = nf_mat_dot T (fin3 (fst d0));
          (r0x, r0y, r0z) = nf_mat_dot T (fin3 (snd d0));
          (u1x, u1y, u1z) = nf_mat_dot T (fin3 (fst d1));
          (r1x, r1y, r1z) = nf_mat_dot T (fin3 (snd d1));
          tmp = nf_sqrt (nf_add (nf_sq (nf_sub r1y r0y)) (nf_sq (nf_sub r1z r0z)));
          sxx0 = nf_add (nf_div (nf_mul (Some E) (nf_sub u1x u0x)) L)
                        (nf_mul (nf_div (nf_mul (Some E) (Some r)) L) tmp);
          sxx1 = nf_add (nf_div (nf_mul (Some E) (nf_sub u0x u1x)) L)
                        (nf_mul (nf_div (nf_mul (Some E) (Some r)) L) tmp);
          sxt = nf_div (nf_mul (nf_mul (Some G) (Some r)) (nf_sub r1x r0x)) L
      in (nf_sqrt (nf_add (nf_sq sxx0) (nf_sq sxt)), nf_sqrt (nf_add (nf_sq sxx1) (nf_sq sxt))))"

definition nf_elem_at :: "component \<Rightarrow> inputs \<Rightarrow> nat \<Rightarrow> nstress" where
  "nf_elem_at self inp i =
     nf_elem_stress (self_E self) (self_G self) (self_x_gl self)
       (nodes inp ! i) (nodes inp ! (i + 1)) (radius inp ! i) (disp inp ! i) (disp inp ! (i + 1))"

definition nf_in_range :: "inputs \<Rightarrow> nstress list \<Rightarrow> nat \<Rightarrow> bool" where
  "nf_in_range inp vm i \<longleftrightarrow>
     i + 1 < length (nodes inp) \<and> i + 1 < length (disp inp) \<and>
     i < length (radius inp) \<and> i < length vm"

definition nf_last_T :: "component \<Rightarrow> inputs \<Rightarrow> nat list \<Rightarrow> nmat3 \<Rightarrow> nmat3" where
  "nf_last_T self inp js T =
     (if js = [] then T
      else nf_frame (nodes inp ! last js) (nodes inp ! (last js + 1)) (self_x_gl self))"

definition nf_shaped :: "component \<Rightarrow> inputs \<Rightarrow> nstress list \<Rightarrow> bool" where
  "nf_shaped self inp vm \<longleftrightarrow>
     length (nodes inp) = self_ny self \<and> length (disp inp) = self_ny self \<and>
     length (radius inp) = self_ny self - 1 \<and> length vm = self_ny self - 1"

text \<open>
  Degenerate geometry of an element: zero length, or an axis parallel to
  \<open>x_gl = (1, 0, 0)\<close>, that is with a zero cross product with it.
\<close>

definition degenerate :: "vec3 \<Rightarrow> vec3 \<Rightarrow> bool" where
  "degenerate P0 P1 \<longleftrightarrow> P0 = P1 \<or> cross (sub3 P1 P0) (1, 0, 0) = (0, 0, 0)"

text \<open>Finite values as scalars of this kind.\<close>

fun fin2 :: "stress \<Rightarrow> nstress" where
  "fin2 (a, b) = (Some a, Some b)"

fun fin_mat :: "mat3 \<Rightarrow> nmat3" where
  "fin_mat (x, y, z) = (fin3 x, fin3 y, fin3 z)"

text \<open>The three norms that the frame of an element divides by are not zero.\<close>

definition finite_frame :: "vec3 \<Rightarrow> vec3 \<Rightarrow> vec3 \<Rightarrow> bool" where
  "finite_frame P0 P1 g \<longleftrightarrow>
     norm_vec (sub3 P1 P0) \<noteq> 0 \<and>
     norm_vec (cross (unit (sub3 P1 P0)) g) \<noteq> 0 \<and>
     norm_vec (cross (unit (sub3 P1 P0)) (unit (cross (unit (sub3 P1 P0)) g))) \<noteq> 0"

section \<open>Concrete inputs\<close>

text \<open>A beam of three nodes, with a scratch matrix and an output array left by earlier use.\<close>

definition ex_self :: component where
  "ex_self = initialize_variables \<lparr>num_y = 3, surf_E = 2, surf_G = 3\<rparr>"

definition ex_inputs :: inputs where
  "ex_inputs =
     \<lparr> nodes = [(0, 0, 0), (0, 3, 4), (1, 3, 8)],
       radius = [1 / 10, 1 / 5],
       disp = [((1, 0, 0), (0, 1, 0)), ((0, 2, 0), (0, 0, 1)), ((1, 1, 1), (0, 0, 0))] \<rparr>"

definition ex_outputs :: outputs where
  "ex_outputs = \<lparr> vonmises = [(5, 5), (7, 7)] \<rparr>"

text \<open>The second element of that beam alone, with other leftovers.\<close>

definition ex_self_alone :: component where
  "ex_self_alone = ex_self\<lparr>self_ny := 2, self_T := ((1, 2, 3), (4, 5, 6), (7, 8, 9))\<rparr>"

definition ex_inputs_alone :: inputs where
  "ex_inputs_alone =
     \<lparr> nodes = [(0, 3, 4), (1, 3, 8)],
       radius = [1 / 5],
       disp = [((0, 2, 0), (0, 0, 1)), ((1, 1, 1), (0, 0, 0))] \<rparr>"

definition ex_outputs_alone :: outputs where
  "ex_outputs_alone = \<lparr> vonmises = [(9, 9)] \<rparr>"

text \<open>
  The scenario of the specification: two nodes \<open>(0, 0, 0)\<close> and \<open>(1, 0, 1)\<close>, radius
  \<open>0.1\<close>, \<open>E = 70e9\<close>, \<open>G = 25e9\<close>, and a displacement of node 1 of \<open>0.01\<close> along the axis
  of the element, whose unit vector is \<open>(1, 0, 1) / sqrt 2\<close>.
\<close>

definition rt2 :: complex where
  "rt2 = complex_of_real (sqrt 2)"

definition c4_self :: component where
  "c4_self = initialize_variables \<lparr>num_y = 2, surf_E = 70000000000, surf_G = 25000000000\<rparr>"

definition c4_inputs :: inputs where
  "c4_inputs =
     \<lparr> nodes = [(0, 0, 0), (1, 0, 1)],
       radius = [1 / 10],
       disp = [((0, 0, 0), (0, 0, 0)),
               ((1 / 100 * (1 / rt2), 0, 1 / 100 * (1 / rt2)), (0, 0, 0))] \<rparr>"

definition c4_outputs :: outputs where
  "c4_outputs = \<lparr> vonmises = [(0, 0)] \<rparr>"

text \<open>Seeds and accumulators for the beam of three nodes, and stand-ins for the routines.\<close>

definition ex_api :: oas_api where
  "ex_api =
     \<lparr> calc_vonmises = (\<lambda>n r d E G g. []),
       calc_vonmises_d = (\<lambda>n nd r rd d dd E G g. ([], map (\<lambda>x. (x, 2 * x)) rd)),
       calc_vonmises_b = (\<lambda>n r d E G g vm vmb.
         (map (\<lambda>p. (1, 1, 1)) n, map fst vmb, map (\<lambda>p. ((1, 0, 0), (0, 0, 1))) d)) \<rparr>"

definition ex_din :: d_inputs where
  "ex_din =
     \<lparr> d_nodes = [(1, 1, 1), (2, 2, 2), (3, 3, 3)],
       d_radius = [1, 2],
       d_disp = [((0, 0, 0), (0, 0, 0)), ((1, 0, 0), (0, 0, 0)), ((0, 0, 0), (0, 0, 1))] \<rparr>"

definition ex_dout :: d_outputs where
  "ex_dout = \<lparr> d_vonmises = [(10, 20), (30, 40)] \<rparr>"

text \<open>The inputs of the beam with other imaginary parts.\<close>

definition ex_inputs_im :: inputs where
  "ex_inputs_im =
     \<lparr> nodes = [(\<i>, 0, 0), (0, 3 + 2 * \<i>, 4), (1, 3, 8 - \<i>)],
       radius = [1 / 10 + \<i>, 1 / 5],
       disp = [((1, 0, 0), (0, 1 + \<i>, 0)), ((0, 2, 0), (0, 0, 1)), ((1, 1, 1 - \<i>), (0, 0, 0))] \<rparr>"

definition ex_outputs_im :: outputs where
  "ex_outputs_im = \<lparr> vonmises = [(5 + \<i>, 5), (7, 7 - 3 * \<i>)] \<rparr>"

text \<open>A Jacobian, and the routines of the specification built on it.\<close>

definition ex_jac :: jacobian where
  "ex_jac n r d E G g k j = real (k + 2 * j)"

definition ex_spec_api :: oas_api where
  "ex_spec_api = spec_api (\<lambda>n r d E G g. []) (\<lambda>n r d E G g. []) ex_jac"

text \<open>A beam whose first element has zero length and whose second lies along \<open>x_gl\<close>.\<close>

definition ex_inputs_degenerate :: inputs where
  "ex_inputs_degenerate = ex_inputs\<lparr>nodes := [(0, 0, 0), (0, 0, 0), (2, 0, 0)]\<rparr>"

definition ex_nf_state :: nf_state where
  "ex_nf_state =
     (((Some 0, Some 0, Some 0), (Some 0, Some 0, Some 0), (Some 0, Some 0, Some 0)),
      [(Some 5, Some 5), (Some 7, Some 7)])"

section \<open>The loop of \<open>compute\<close>\<close>

lemma set_rows: "set_row2 (set_row1 (set_row0 T a) b) c = (a, b, c)"
  by (cases T) simp

lemma elem_step_ok:
  assumes "in_range inp out i"
  shows "elem_step i (self, inp, out) =
     Inr (self\<lparr>self_T := frame (nodes inp ! i) (nodes inp ! (i + 1)) (self_x_gl self)\<rparr>, inp,
          out\<lparr>vonmises := (vonmises out)[i := elem_at self inp i]\<rparr>)"
  using assms
  by (simp add: in_range_def elem_step_def bind_err_def getitem_def setitem_def Let_def set_rows
      elem_at_def elem_stress_def frame_def split_beta)

lemma elem_at_T: "elem_at (self\<lparr>self_T := X\<rparr>) inp i = elem_at self inp i"
  by (simp add: elem_at_def)

lemma in_range_upd:
  "in_range inp (out\<lparr>vonmises := (vonmises out)[j := v]\<rparr>) i = in_range inp out i"
  by (simp add: in_range_def)

lemma compute_loop_ok:
  assumes "\<forall>i\<in>set js. in_range inp out i"
  shows "\<exists>vm. compute_loop js (self, inp, out) =
            Inr (self\<lparr>self_T := last_T self inp js\<rparr>, inp, out\<lparr>vonmises := vm\<rparr>) \<and>
          length vm = length (vonmises out) \<and>
          (\<forall>i < length vm. vm ! i = (if i \<in> set js then elem_at self inp i else vonmises out ! i))"
  using assms
proof (induction js arbitrary: self out)
  case Nil
  have "compute_loop [] (self, inp, out) =
          Inr (self\<lparr>self_T := last_T self inp []\<rparr>, inp, out\<lparr>vonmises := vonmises out\<rparr>)"
    by (simp add: last_T_def)
  then show ?case by (intro exI [of _ "vonmises out"]) simp
next
  case (Cons j js)
  let ?self = "self\<lparr>self_T := frame (nodes inp ! j) (nodes inp ! (j + 1)) (self_x_gl self)\<rparr>"
  let ?out = "out\<lparr>vonmises := (vonmises out)[j := elem_at self inp j]\<rparr>"
  from Cons.prems have j: "in_range inp out j" by simp
  then have step: "elem_step j (self, inp, out) = Inr (?self, inp, ?out)"
    by (rule elem_step_ok)
  from Cons.prems have "\<forall>i\<in>set js. in_range inp ?out i" by (simp add: in_range_upd)
  from Cons.IH [OF this, of ?self] obtain vm where
    run: "compute_loop js (?self, inp, ?out) =
            Inr (?self\<lparr>self_T := last_T ?self inp js\<rparr>, inp, ?out\<lparr>vonmises := vm\<rparr>)"
    and len: "length vm = length (vonmises ?out)"
    and vals: "\<forall>i < length vm. vm ! i =
                 (if i \<in> set js then elem_at ?self inp i else vonmises ?out ! i)"
    by blast
  have T: "?self\<lparr>self_T := last_T ?self inp js\<rparr> = self\<lparr>self_T := last_T self inp (j # js)\<rparr>"
    by (simp add: last_T_def)
  have "compute_loop (j # js) (self, inp, out) =
          Inr (self\<lparr>self_T := last_T self inp (j # js)\<rparr>, inp, out\<lparr>vonmises := vm\<rparr>)"
    using step run T by (simp add: bind_err_def)
  moreover have "length vm = length (vonmises out)" using len by simp
  moreover have "\<forall>i < length vm. vm ! i =
      (if i \<in> set (j # js) then elem_at self inp i else vonmises out ! i)"
    using vals len by (auto simp: nth_list_update elem_at_T)
  ultimately show ?case by blast
qed

lemma compute_ok:
  assumes "shaped self inp out"
  shows "compute None (self, inp, out) =
     Inr (self\<lparr>self_T := last_T self inp [0 ..< self_ny self - 1]\<rparr>, inp,
          out\<lparr>vonmises := map (elem_at self inp) [0 ..< self_ny self - 1]\<rparr>)"
proof -
  let ?n = "self_ny self - 1"
  have "\<forall>i\<in>set [0 ..< ?n]. in_range inp out i"
    using assms by (auto simp: shaped_def in_range_def)
  from compute_loop_ok [OF this, of self] obtain vm where
    run: "compute_loop [0 ..< ?n] (self, inp, out) =
            Inr (self\<lparr>self_T := last_T self inp [0 ..< ?n]\<rparr>, inp, out\<lparr>vonmises := vm\<rparr>)"
    and len: "length vm = length (vonmises out)"
    and vals: "\<forall>i < length vm. vm ! i =
                 (if i \<in> set [0 ..< ?n] then elem_at self inp i else vonmises out ! i)"
    by blast
  have "vm = map (elem_at self inp) [0 ..< ?n]"
    using len vals assms by (intro nth_equalityI) (auto simp: shaped_def)
  with run show ?thesis by (simp add: compute_def)
qed

lemma elem_stress_spec: "elem_stress E G g P0 P1 r d0 d1 = spec_vonmises E G g P0 P1 r d0 d1"
proof -
  obtain t0 t1 t2 where T: "frame P0 P1 g = (t0, t1, t2)" by (cases "frame P0 P1 g")
  show ?thesis
    by (simp add: elem_stress_def spec_vonmises_def spec_local_def spec_bend_def
        spec_sigma0_def spec_sigma1_def spec_shear_def T Let_def)
qed

lemma mat_dot_zero: "mat_dot T (0, 0, 0) = (0, 0, 0)"
  by (cases T rule: prod_cases3; cases "fst T"; cases "fst (snd T)"; cases "snd (snd T)") simp

lemma elem_stress_zero:
  "elem_stress E G g P0 P1 r ((0, 0, 0), (0, 0, 0)) ((0, 0, 0), (0, 0, 0)) = (0, 0)"
  by (simp add: elem_stress_def mat_dot_zero)

lemma compute_api:
  "compute (Some a) (self, inp, out) =
     Inr (self\<lparr>self_T := self_T self\<rparr>, inp,
          out\<lparr>vonmises := calc_vonmises a (nodes inp) (radius inp) (disp inp)
                             (self_E self) (self_G self) (self_x_gl self)\<rparr>)"
  by (simp add: compute_def)

lemma outputs_vonmises: "(out :: outputs)\<lparr>vonmises := vm\<rparr> = \<lparr>vonmises = vm\<rparr>"
  by simp

section \<open>The frame of an element\<close>

lemma norm_vec_dot: "norm_vec v = csqrt (dot3 v v)"
  by (cases v) (simp add: power2_eq_square)

lemma norm_vec_sq: "(norm_vec v)\<^sup>2 = dot3 v v"
  by (simp add: norm_vec_dot)

lemma norm_vec_one: "dot3 v v = 1 \<Longrightarrow> norm_vec v = 1"
  by (cases v) (simp add: power2_eq_square)

lemma norm_vec_nonzero: "dot3 v v \<noteq> 0 \<Longrightarrow> norm_vec v \<noteq> 0"
  by (cases v) (simp add: power2_eq_square)

lemma unit_fixed: "dot3 v v = 1 \<Longrightarrow> unit v = v"
  using norm_vec_one [of v] by (cases v) simp

lemma dot3_unit_left: "dot3 (unit v) w = dot3 v w / norm_vec v"
  by (cases v; cases w) (simp add: add_divide_distrib)

lemma dot3_unit_right: "dot3 w (unit v) = dot3 w v / norm_vec v"
  by (cases v; cases w) (simp add: add_divide_distrib)

lemma dot3_unit_unit:
  assumes "dot3 v v \<noteq> 0"
  shows "dot3 (unit v) (unit v) = 1"
proof -
  have "dot3 (unit v) (unit v) = dot3 v v / (norm_vec v)\<^sup>2"
    by (simp add: dot3_unit_left dot3_unit_right power2_eq_square)
  with assms show ?thesis by (simp add: norm_vec_sq)
qed

lemma dot3_cross_left: "dot3 x (cross x y) = 0"
  by (cases x; cases y) (simp add: algebra_simps)

lemma dot3_cross_right: "dot3 y (cross x y) = 0"
  by (cases x; cases y) (simp add: algebra_simps)

lemma dot3_cross_cross:
  "dot3 (cross x y) (cross x y) = dot3 x x * dot3 y y - (dot3 x y)\<^sup>2"
  by (cases x; cases y) (simp add: algebra_simps power2_eq_square)

lemma orthonormal_frame_general:
  assumes v: "dot3 (sub3 P1 P0) (sub3 P1 P0) \<noteq> 0"
    and w: "dot3 (cross (unit (sub3 P1 P0)) g) (cross (unit (sub3 P1 P0)) g) \<noteq> 0"
  shows "orthonormal (frame P0 P1 g)"
proof -
  define x where "x = unit (sub3 P1 P0)"
  define y where "y = unit (cross x g)"
  define z where "z = unit (cross x y)"
  have xx: "dot3 x x = 1" unfolding x_def using v by (rule dot3_unit_unit)
  have yy: "dot3 y y = 1" unfolding y_def using w by (simp add: x_def dot3_unit_unit)
  have xy: "dot3 x y = 0" unfolding y_def by (simp add: dot3_unit_right dot3_cross_left)
  have cc: "dot3 (cross x y) (cross x y) = 1"
    by (simp add: dot3_cross_cross xx yy xy)
  then have z: "z = cross x y" unfolding z_def by (rule unit_fixed)
  have zz: "dot3 z z = 1" using cc z by simp
  have xz: "dot3 x z = 0" by (simp add: z dot3_cross_left)
  have yz: "dot3 y z = 0" by (simp add: z dot3_cross_right)
  have "frame P0 P1 g = (x, y, z)" by (simp add: frame_def Let_def x_def y_def z_def)
  then show ?thesis
    by (simp add: orthonormal_def norm_vec_one xx yy zz xy xz yz)
qed

lemma real_sumsq_nonzero:
  assumes "Im a = 0" "Im b = 0" "a \<noteq> 0 \<or> b \<noteq> 0"
  shows "a\<^sup>2 + b\<^sup>2 \<noteq> 0"
proof -
  have a: "a = of_real (Re a)" and b: "b = of_real (Re b)"
    using assms by (simp_all add: complex_eq_iff)
  have "a\<^sup>2 + b\<^sup>2 = of_real ((Re a)\<^sup>2 + (Re b)\<^sup>2)"
    by (subst a, subst b) simp
  moreover have "(Re a)\<^sup>2 + (Re b)\<^sup>2 \<noteq> 0"
    using assms a b by (metis of_real_0 sum_power2_eq_zero_iff)
  ultimately show ?thesis by (simp del: of_real_add of_real_power)
qed

lemma real_sumsq3_nonzero:
  assumes "Im a = 0" "Im b = 0" "Im c = 0" "a \<noteq> 0 \<or> b \<noteq> 0 \<or> c \<noteq> 0"
  shows "a\<^sup>2 + b\<^sup>2 + c\<^sup>2 \<noteq> 0"
proof -
  have a: "a = of_real (Re a)" and b: "b = of_real (Re b)" and c: "c = of_real (Re c)"
    using assms by (simp_all add: complex_eq_iff)
  have "a\<^sup>2 + b\<^sup>2 + c\<^sup>2 = of_real ((Re a)\<^sup>2 + (Re b)\<^sup>2 + (Re c)\<^sup>2)"
    by (subst a, subst b, subst c) simp
  moreover have "(Re a)\<^sup>2 + (Re b)\<^sup>2 + (Re c)\<^sup>2 \<noteq> 0"
  proof
    assume "(Re a)\<^sup>2 + (Re b)\<^sup>2 + (Re c)\<^sup>2 = 0"
    moreover have "0 \<le> (Re a)\<^sup>2" "0 \<le> (Re b)\<^sup>2" "0 \<le> (Re c)\<^sup>2" by simp_all
    ultimately have "(Re a)\<^sup>2 = 0" "(Re b)\<^sup>2 = 0" "(Re c)\<^sup>2 = 0" by linarith+
    then have "Re a = 0" "Re b = 0" "Re c = 0" by simp_all
    with a b c assms(4) show False by simp
  qed
  ultimately show ?thesis by (simp del: of_real_add of_real_power)
qed

lemma well_posed_normalizers:
  assumes "well_posed P0 P1"
  shows "dot3 (sub3 P1 P0) (sub3 P1 P0) \<noteq> 0"
    and "dot3 (cross (unit (sub3 P1 P0)) (1, 0, 0)) (cross (unit (sub3 P1 P0)) (1, 0, 0)) \<noteq> 0"
proof -
  obtain a0 a1 a2 where P0: "P0 = (a0, a1, a2)" by (cases P0)
  obtain b0 b1 b2 where P1: "P1 = (b0, b1, b2)" by (cases P1)
  from assms have im: "Im (b0 - a0) = 0" "Im (b1 - a1) = 0" "Im (b2 - a2) = 0"
    and ne: "b1 - a1 \<noteq> 0 \<or> b2 - a2 \<noteq> 0"
    by (auto simp: well_posed_def P0 P1)
  have s3: "(b0 - a0)\<^sup>2 + (b1 - a1)\<^sup>2 + (b2 - a2)\<^sup>2 \<noteq> 0"
    using im ne by (intro real_sumsq3_nonzero) auto
  then show v: "dot3 (sub3 P1 P0) (sub3 P1 P0) \<noteq> 0"
    by (simp add: P0 P1 power2_eq_square)
  have s2: "(b2 - a2)\<^sup>2 + (b1 - a1)\<^sup>2 \<noteq> 0"
    using im ne by (intro real_sumsq_nonzero) auto
  have n: "norm_vec (sub3 P1 P0) \<noteq> 0" using v by (rule norm_vec_nonzero)
  have "dot3 (cross (unit (sub3 P1 P0)) (1, 0, 0)) (cross (unit (sub3 P1 P0)) (1, 0, 0)) =
        ((b2 - a2)\<^sup>2 + (b1 - a1)\<^sup>2) / (norm_vec (sub3 P1 P0))\<^sup>2"
    by (simp add: P0 P1 power2_eq_square add_divide_distrib)
  with s2 n show "dot3 (cross (unit (sub3 P1 P0)) (1, 0, 0)) (cross (unit (sub3 P1 P0)) (1, 0, 0)) \<noteq> 0"
    by simp
qed


text \<open>On real points, every row of the frame is real.\<close>

lemma real_norm_vec: "real_vec v \<Longrightarrow> Im (norm_vec v) = 0"
proof (cases v)
  case (fields a b c)
  assume "real_vec v"
  with fields have im: "Im a = 0" "Im b = 0" "Im c = 0" by simp_all
  have "Im (a\<^sup>2 + b\<^sup>2 + c\<^sup>2) = 0" "0 \<le> Re (a\<^sup>2 + b\<^sup>2 + c\<^sup>2)"
    using im by (simp_all add: power2_eq_square)
  then have "csqrt (a\<^sup>2 + b\<^sup>2 + c\<^sup>2) = complex_of_real (sqrt (Re (a\<^sup>2 + b\<^sup>2 + c\<^sup>2)))"
    by (rule csqrt_of_real_nonneg)
  then show ?thesis using fields by simp
qed

lemma real_unit: "real_vec v \<Longrightarrow> real_vec (unit v)"
  using real_norm_vec [of v] by (cases v) (simp add: Im_divide)

lemma real_cross: "real_vec x \<Longrightarrow> real_vec y \<Longrightarrow> real_vec (cross x y)"
  by (cases x; cases y) simp

lemma real_sub3: "real_vec x \<Longrightarrow> real_vec y \<Longrightarrow> real_vec (sub3 x y)"
  by (cases x; cases y) simp

lemma real_frame:
  assumes "real_vec P0" "real_vec P1" "real_vec g"
  shows "real_mat (frame P0 P1 g)"
  using assms by (simp add: frame_def Let_def real_unit real_cross real_sub3)

section \<open>The scenario of the specification, evaluated\<close>

lemma rt2_sq: "rt2 * rt2 = 2"
  by (simp add: rt2_def flip: of_real_mult)

lemma rt2_nonzero: "rt2 \<noteq> 0"
  by (simp add: rt2_def)

lemma csqrt_two: "csqrt 2 = rt2"
  using of_real_sqrt [of 2] by (simp add: rt2_def)

lemma csqrt_pos_real_sq: "0 \<le> x \<Longrightarrow> csqrt ((complex_of_real x)\<^sup>2) = complex_of_real x"
  by (rule csqrt_square) auto

lemma inv_rt2: "1 / rt2 = complex_of_real (1 / sqrt 2)"
  by (simp add: rt2_def)

lemma csqrt_inv_rt2: "csqrt ((1 / rt2)\<^sup>2) = 1 / rt2"
  unfolding inv_rt2 by (rule csqrt_pos_real_sq) simp

lemma frame_c4: "frame (0, 0, 0) (1, 0, 1) (1, 0, 0) =
    ((1 / rt2, 0, 1 / rt2), (0, 1, 0), (- (1 / rt2), 0, 1 / rt2))"
proof -
  have x: "unit (sub3 (1, 0, 1) (0, 0, 0)) = (1 / rt2, 0, 1 / rt2)"
    by (simp add: csqrt_two)
  have n: "norm_vec (0, 1 / rt2, 0) = 1 / rt2"
    using csqrt_inv_rt2 by simp
  have y: "unit (cross (1 / rt2, 0, 1 / rt2) (1, 0, 0)) = (0, 1, 0)"
    using n rt2_nonzero by simp
  have "(1 / rt2)\<^sup>2 + (1 / rt2)\<^sup>2 = 1"
    using rt2_sq rt2_nonzero by (simp add: power2_eq_square field_simps)
  then have "norm_vec (- (1 / rt2), 0, 1 / rt2) = 1" by simp
  then have z: "unit (cross (1 / rt2, 0, 1 / rt2) (0, 1, 0)) = (- (1 / rt2), 0, 1 / rt2)"
    by simp
  show ?thesis by (simp only: frame_def Let_def x y z)
qed


lemma csqrt_pos_sq: "0 < x \<Longrightarrow> csqrt ((complex_of_real x)\<^sup>2) = complex_of_real x"
  by (rule csqrt_square) auto

lemma axial_value: "70000000000 * (1 / 100) / rt2 = complex_of_real (700000000 / sqrt 2)"
  by (simp add: rt2_def)

lemma elem_c4:
  "elem_stress 70000000000 25000000000 (1, 0, 0) (0, 0, 0) (1, 0, 1) (1 / 10)
     ((0, 0, 0), (0, 0, 0)) ((1 / 100 * (1 / rt2), 0, 1 / 100 * (1 / rt2)), (0, 0, 0)) =
   (70000000000 * (1 / 100) / rt2, 70000000000 * (1 / 100) / rt2)"
proof -
  have L: "norm_vec (sub3 (1, 0, 1) (0, 0, 0)) = rt2" by (simp add: csqrt_two)
  have u: "1 / 100 * (1 / rt2) * (1 / rt2) + 1 / 100 * (1 / rt2) * (1 / rt2) = 1 / 100"
    using rt2_sq rt2_nonzero by (simp add: field_simps)
  have u1: "mat_dot ((1 / rt2, 0, 1 / rt2), (0, 1, 0), (- (1 / rt2), 0, 1 / rt2))
              (1 / 100 * (1 / rt2), 0, 1 / 100 * (1 / rt2)) = (1 / 100, 0, 0)"
    using u by (simp add: mult.commute)
  have pos: "csqrt ((70000000000 * (1 / 100) / rt2)\<^sup>2) = 70000000000 * (1 / 100) / rt2"
    unfolding axial_value by (rule csqrt_pos_sq) simp
  have neg: "csqrt ((70000000000 * (0 - 1 / 100) / rt2)\<^sup>2) = 70000000000 * (1 / 100) / rt2"
  proof -
    have "(70000000000 * (0 - 1 / 100) / rt2)\<^sup>2 = (70000000000 * (1 / 100) / rt2)\<^sup>2"
      by (simp add: power2_eq_square)
    then show ?thesis using pos by simp
  qed
  show ?thesis
    unfolding elem_stress_def L frame_c4 Let_def
    using u1 pos neg by (simp del: mat_dot.simps add: mat_dot_zero)
qed


section \<open>Properties of \<open>compute\<close>\<close>

text \<open>
  C1. For every element \<open>i\<close> with well-posed geometry, \<open>compute\<close> (the Python loop) returns,
  and the pair it stores in \<open>vonmises[i]\<close> is the closed form of the specification:
  \<open>sqrt (sigma0\<^sup>2 + shear\<^sup>2)\<close> and \<open>sqrt (sigma1\<^sup>2 + shear\<^sup>2)\<close>, with the local quantities
  obtained by rotating the end displacements into the frame of the element, and no factor
  of 3 on the shear term.
\<close>

theorem evaluate_closed_form:
  assumes "shaped self inp out" and "self_x_gl self = (1, 0, 0)"
    and "i < self_ny self - 1"
    and "well_posed (nodes inp ! i) (nodes inp ! (i + 1))"
  shows "\<exists>self' out'. compute None (self, inp, out) = Inr (self', inp, out') \<and>
           vonmises out' ! i =
             spec_vonmises (self_E self) (self_G self) (1, 0, 0)
               (nodes inp ! i) (nodes inp ! (i + 1)) (radius inp ! i)
               (disp inp ! i) (disp inp ! (i + 1))"
  using assms(2,3) compute_ok [OF assms(1)]
  by (simp add: elem_at_def elem_stress_spec)

theorem evaluate_closed_form_witness:
  "shaped ex_self ex_inputs ex_outputs \<and> well_posed (0, 3, 4) (1, 3, 8) \<and>
   (\<exists>self' out'. compute None (ex_self, ex_inputs, ex_outputs) = Inr (self', ex_inputs, out') \<and>
      vonmises out' ! 1 =
        spec_vonmises 2 3 (1, 0, 0) (0, 3, 4) (1, 3, 8) (1 / 5)
          ((0, 2, 0), (0, 0, 1)) ((1, 1, 1), (0, 0, 0)))"
proof -
  have h1: "shaped ex_self ex_inputs ex_outputs"
    by (simp add: shaped_def ex_self_def ex_inputs_def ex_outputs_def initialize_variables_def)
  have h2: "self_x_gl ex_self = (1, 0, 0)"
    by (simp add: ex_self_def initialize_variables_def)
  have h3: "1 < self_ny ex_self - 1"
    by (simp add: ex_self_def initialize_variables_def)
  have h4: "well_posed (0, 3, 4) (1, 3, 8)"
    by (simp add: well_posed_def)
  have h4': "well_posed (nodes ex_inputs ! 1) (nodes ex_inputs ! (1 + 1))"
    using h4 by (simp add: ex_inputs_def)
  show ?thesis
    using evaluate_closed_form [OF h1 h2 h3 h4'] h1 h4
    by (simp add: ex_inputs_def ex_self_def initialize_variables_def)
qed

text \<open>
  C2. For every element whose end points are distinct points of real space and whose axis
  is not parallel to \<open>x_gl = (1, 0, 0)\<close>, the pass of the loop leaves in \<open>self.T\<close> the frame
  \<open>x_loc = unit (P1 - P0)\<close>, \<open>y_loc = unit (x_loc \<times> x_gl)\<close>, \<open>z_loc = unit (x_loc \<times> y_loc)\<close>,
  and this frame is an orthonormal basis: its three rows are real, each has norm 1, and
  their pairwise dot products are 0.
\<close>

theorem frame_orthonormal:
  assumes "in_range inp out i" and "self_x_gl self = (1, 0, 0)"
    and "well_posed (nodes inp ! i) (nodes inp ! (i + 1))"
  shows "\<exists>self' out'. elem_step i (self, inp, out) = Inr (self', inp, out') \<and>
           self_T self' = frame (nodes inp ! i) (nodes inp ! (i + 1)) (1, 0, 0) \<and>
           real_mat (self_T self') \<and> orthonormal (self_T self')"
proof -
  let ?F = "frame (nodes inp ! i) (nodes inp ! (i + 1)) (1, 0, 0)"
  have "orthonormal ?F"
    using well_posed_normalizers [OF assms(3)] by (rule orthonormal_frame_general)
  moreover have "real_mat ?F"
    using assms(3) by (intro real_frame) (simp_all add: well_posed_def)
  ultimately show ?thesis
    using elem_step_ok [OF assms(1), of self] assms(2) by simp
qed

theorem frame_orthonormal_witness:
  "in_range ex_inputs ex_outputs 0 \<and> well_posed (0, 0, 0) (0, 3, 4) \<and>
   (\<exists>self' out'. elem_step 0 (ex_self, ex_inputs, ex_outputs) = Inr (self', ex_inputs, out') \<and>
      self_T self' = frame (0, 0, 0) (0, 3, 4) (1, 0, 0) \<and>
      real_mat (self_T self') \<and> orthonormal (self_T self'))"
proof -
  have h1: "in_range ex_inputs ex_outputs 0"
    by (simp add: in_range_def ex_inputs_def ex_outputs_def)
  have h2: "self_x_gl ex_self = (1, 0, 0)"
    by (simp add: ex_self_def initialize_variables_def)
  have h3: "well_posed (0, 0, 0) (0, 3, 4)"
    by (simp add: well_posed_def)
  have h3': "well_posed (nodes ex_inputs ! 0) (nodes ex_inputs ! (0 + 1))"
    using h3 by (simp add: ex_inputs_def)
  show ?thesis
    using frame_orthonormal [OF h1 h2 h3'] h1 h3 by (simp add: ex_inputs_def)
qed

text \<open>
  C3. On every valid geometry (every element well posed) and for every radius sequence,
  if the displacement array is zero everywhere then \<open>compute\<close> returns with a \<open>vonmises\<close>
  array that is zero everywhere, whatever the array held before.
\<close>

theorem zero_displacement:
  assumes "shaped self inp out" and "self_x_gl self = (1, 0, 0)"
    and "\<forall>i < self_ny self - 1. well_posed (nodes inp ! i) (nodes inp ! (i + 1))"
    and "\<forall>d \<in> set (disp inp). d = ((0, 0, 0), (0, 0, 0))"
  shows "\<exists>self'. compute None (self, inp, out) =
           Inr (self', inp, \<lparr>vonmises = replicate (self_ny self - 1) (0, 0)\<rparr>)"
proof -
  have "elem_at self inp i = (0, 0)" if "i < self_ny self - 1" for i
  proof -
    from that assms(1) have "i < length (disp inp)" "i + 1 < length (disp inp)"
      by (simp_all add: shaped_def)
    with assms(4) have "disp inp ! i = ((0, 0, 0), (0, 0, 0))"
      "disp inp ! (i + 1) = ((0, 0, 0), (0, 0, 0))"
      using nth_mem by blast+
    then show ?thesis by (simp add: elem_at_def elem_stress_zero)
  qed
  then have "map (elem_at self inp) [0 ..< self_ny self - 1] =
      replicate (self_ny self - 1) (0, 0)"
    by (intro nth_equalityI) simp_all
  with compute_ok [OF assms(1)] show ?thesis by (simp add: outputs_vonmises)
qed

theorem zero_displacement_witness:
  "shaped ex_self (ex_inputs\<lparr>disp := replicate 3 ((0, 0, 0), (0, 0, 0))\<rparr>) ex_outputs \<and>
   well_posed (0, 0, 0) (0, 3, 4) \<and> well_posed (0, 3, 4) (1, 3, 8) \<and>
   vonmises ex_outputs = [(5, 5), (7, 7)] \<and>
   (\<exists>self'. compute None
        (ex_self, ex_inputs\<lparr>disp := replicate 3 ((0, 0, 0), (0, 0, 0))\<rparr>, ex_outputs) =
      Inr (self', ex_inputs\<lparr>disp := replicate 3 ((0, 0, 0), (0, 0, 0))\<rparr>,
           \<lparr>vonmises = [(0, 0), (0, 0)]\<rparr>))"
proof -
  let ?inp = "ex_inputs\<lparr>disp := replicate 3 ((0, 0, 0), (0, 0, 0))\<rparr>"
  have h1: "shaped ex_self ?inp ex_outputs"
    by (simp add: shaped_def ex_self_def ex_inputs_def ex_outputs_def initialize_variables_def)
  have h2: "self_x_gl ex_self = (1, 0, 0)"
    by (simp add: ex_self_def initialize_variables_def)
  have w0: "well_posed (0, 0, 0) (0, 3, 4)" and w1: "well_posed (0, 3, 4) (1, 3, 8)"
    by (simp_all add: well_posed_def)
  have n: "self_ny ex_self - 1 = 2"
    by (simp add: ex_self_def initialize_variables_def)
  have h3: "\<forall>i < self_ny ex_self - 1. well_posed (nodes ?inp ! i) (nodes ?inp ! (i + 1))"
    unfolding n using w0 w1 by (simp add: ex_inputs_def less_Suc_eq numeral_2_eq_2)
  have h4: "\<forall>d \<in> set (disp ?inp). d = ((0, 0, 0), (0, 0, 0))"
    by simp
  have r: "replicate 2 ((0, 0) :: stress) = [(0, 0), (0, 0)]"
    by (simp add: numeral_2_eq_2)
  show ?thesis
    using zero_displacement [OF h1 h2 h3 h4] h1 w0 w1 unfolding n r
    by (simp add: ex_outputs_def)
qed

text \<open>
  C4. The scenario of the specification: nodes \<open>(0, 0, 0)\<close> and \<open>(1, 0, 1)\<close>, radius \<open>0.1\<close>,
  \<open>E = 70e9\<close>, \<open>G = 25e9\<close>, no displacement but the one of node 1 that is, in the frame of the
  element, the axial stretch \<open>u1x = 0.01\<close>. The length is \<open>L = sqrt 2\<close>, and \<open>compute\<close>
  returns \<open>vonmises[0, 0] = vonmises[0, 1] = E * 0.01 / L\<close>.
\<close>

theorem axial_stretch_scenario:
  "\<exists>self'. compute None (c4_self, c4_inputs, c4_outputs) =
       Inr (self', c4_inputs,
            \<lparr>vonmises = [(70000000000 * (1 / 100) / complex_of_real (sqrt 2),
                          70000000000 * (1 / 100) / complex_of_real (sqrt 2))]\<rparr>) \<and>
     mat_dot (self_T self') (fst (disp c4_inputs ! 1)) = (1 / 100, 0, 0) \<and>
     mat_dot (self_T self') (snd (disp c4_inputs ! 1)) = (0, 0, 0) \<and>
     disp c4_inputs ! 0 = ((0, 0, 0), (0, 0, 0)) \<and>
     norm_vec (sub3 (nodes c4_inputs ! 1) (nodes c4_inputs ! 0)) = complex_of_real (sqrt 2)"
proof -
  have sh: "shaped c4_self c4_inputs c4_outputs"
    by (simp add: shaped_def c4_self_def c4_inputs_def c4_outputs_def initialize_variables_def)
  have n: "[0 ..< self_ny c4_self - 1] = [0]"
    by (simp add: c4_self_def initialize_variables_def)
  have T: "last_T c4_self c4_inputs [0] =
      ((1 / rt2, 0, 1 / rt2), (0, 1, 0), (- (1 / rt2), 0, 1 / rt2))"
    by (simp add: last_T_def c4_self_def c4_inputs_def initialize_variables_def frame_c4)
  have e: "elem_at c4_self c4_inputs 0 =
      (70000000000 * (1 / 100) / rt2, 70000000000 * (1 / 100) / rt2)"
    using elem_c4 by (simp add: elem_at_def c4_self_def c4_inputs_def initialize_variables_def)
  have u: "1 / 100 * (1 / rt2) * (1 / rt2) + 1 / 100 * (1 / rt2) * (1 / rt2) = 1 / 100"
    using rt2_sq rt2_nonzero by (simp add: field_simps)
  have run: "compute None (c4_self, c4_inputs, c4_outputs) =
      Inr (c4_self\<lparr>self_T := ((1 / rt2, 0, 1 / rt2), (0, 1, 0), (- (1 / rt2), 0, 1 / rt2))\<rparr>,
           c4_inputs,
           \<lparr>vonmises = [(70000000000 * (1 / 100) / rt2, 70000000000 * (1 / 100) / rt2)]\<rparr>)"
    using compute_ok [OF sh] unfolding n by (simp add: T e c4_outputs_def)
  have loc: "mat_dot ((1 / rt2, 0, 1 / rt2), (0, 1, 0), (- (1 / rt2), 0, 1 / rt2))
      (fst (disp c4_inputs ! 1)) = (1 / 100, 0, 0)"
    using u by (simp add: c4_inputs_def mult.commute)
  have rot: "snd (disp c4_inputs ! 1) = (0, 0, 0)" "disp c4_inputs ! 0 = ((0, 0, 0), (0, 0, 0))"
    by (simp_all add: c4_inputs_def)
  have L: "norm_vec (sub3 (nodes c4_inputs ! 1) (nodes c4_inputs ! 0)) = rt2"
    by (simp add: c4_inputs_def csqrt_two)
  show ?thesis
    using run loc rot L
    by (simp add: rt2_def del: mat_dot.simps add: mat_dot_zero)
qed

text \<open>
  C5. The pair stored for element \<open>i\<close> depends only on \<open>nodes[i]\<close>, \<open>nodes[i+1]\<close>,
  \<open>radius[i]\<close>, \<open>disp[i]\<close>, \<open>disp[i+1]\<close>, \<open>E\<close>, \<open>G\<close> and \<open>x_gl\<close>: any other run that has the
  same data at its element \<open>j\<close> (in particular the run on the two nodes of the element
  alone, where \<open>j = 0\<close>) stores the same pair, whatever the two scratch matrices \<open>self.T\<close>
  and the two output arrays held before, so that nothing left in \<open>self.T\<close> by an earlier
  element or call is read.
\<close>

theorem element_independence:
  assumes "shaped self inp out" and "i < self_ny self - 1"
    and "shaped self' inp' out'" and "j < self_ny self' - 1"
    and "nodes inp' ! j = nodes inp ! i" and "nodes inp' ! (j + 1) = nodes inp ! (i + 1)"
    and "radius inp' ! j = radius inp ! i"
    and "disp inp' ! j = disp inp ! i" and "disp inp' ! (j + 1) = disp inp ! (i + 1)"
    and "self_E self' = self_E self" and "self_G self' = self_G self"
    and "self_x_gl self' = self_x_gl self"
  shows "\<exists>s s'. compute None (self, inp, out) = Inr s \<and>
           compute None (self', inp', out') = Inr s' \<and>
           vonmises (snd (snd s')) ! j = vonmises (snd (snd s)) ! i"
proof -
  have "elem_at self' inp' j = elem_at self inp i"
    using assms(5-12) by (simp add: elem_at_def)
  then show ?thesis
    using compute_ok [OF assms(1)] compute_ok [OF assms(3)] assms(2,4) by simp
qed

theorem element_independence_witness:
  "shaped ex_self ex_inputs ex_outputs \<and>
   shaped ex_self_alone ex_inputs_alone ex_outputs_alone \<and>
   self_T ex_self_alone \<noteq> self_T ex_self \<and>
   (\<exists>s s'. compute None (ex_self, ex_inputs, ex_outputs) = Inr s \<and>
      compute None (ex_self_alone, ex_inputs_alone, ex_outputs_alone) = Inr s' \<and>
      vonmises (snd (snd s')) ! 0 = vonmises (snd (snd s)) ! 1)"
proof -
  have h1: "shaped ex_self ex_inputs ex_outputs"
    by (simp add: shaped_def ex_self_def ex_inputs_def ex_outputs_def initialize_variables_def)
  have h2: "1 < self_ny ex_self - 1"
    by (simp add: ex_self_def initialize_variables_def)
  have h3: "shaped ex_self_alone ex_inputs_alone ex_outputs_alone"
    by (simp add: shaped_def ex_self_alone_def ex_inputs_alone_def ex_outputs_alone_def)
  have h4: "0 < self_ny ex_self_alone - 1"
    by (simp add: ex_self_alone_def)
  have T: "self_T ex_self_alone \<noteq> self_T ex_self"
    by (simp add: ex_self_alone_def ex_self_def initialize_variables_def)
  show ?thesis
    using element_independence [OF h1 h2 h3 h4] h1 h3 T
    by (simp add: ex_inputs_def ex_inputs_alone_def ex_self_alone_def)
qed

text \<open>
  C9. \<open>compute\<close> is a function of its inputs, and leaves them as they are: two calls with
  the same \<open>nodes\<close>, \<open>radius\<close>, \<open>disp\<close>, \<open>E\<close> and \<open>G\<close> (and the same constant \<open>x_gl\<close>)
  return the same \<open>vonmises\<close> array, whatever \<open>self.T\<close> and the output array held before
  each call, and each call returns the input arrays unchanged. This holds for the Python
  loop and for the compiled routine, taken as a function of its arguments.
\<close>

theorem evaluate_deterministic:
  assumes "shaped self inp out" and "shaped self' inp out'"
    and "self_E self' = self_E self" and "self_G self' = self_G self"
    and "self_x_gl self' = self_x_gl self"
  shows "\<exists>T1 T2 vm.
           compute api (self, inp, out) = Inr (self\<lparr>self_T := T1\<rparr>, inp, \<lparr>vonmises = vm\<rparr>) \<and>
           compute api (self', inp, out') = Inr (self'\<lparr>self_T := T2\<rparr>, inp, \<lparr>vonmises = vm\<rparr>)"
proof (cases api)
  case None
  from assms(1,2) have ny: "self_ny self' = self_ny self" by (simp add: shaped_def)
  have el: "elem_at self' inp = elem_at self inp"
    using assms(3-5) by (simp add: elem_at_def fun_eq_iff)
  have "compute api (self, inp, out) =
      Inr (self\<lparr>self_T := last_T self inp [0 ..< self_ny self - 1]\<rparr>, inp,
           \<lparr>vonmises = map (elem_at self inp) [0 ..< self_ny self - 1]\<rparr>)"
    using compute_ok [OF assms(1)] None by (simp add: outputs_vonmises)
  moreover have "compute api (self', inp, out') =
      Inr (self'\<lparr>self_T := last_T self' inp [0 ..< self_ny self - 1]\<rparr>, inp,
           \<lparr>vonmises = map (elem_at self inp) [0 ..< self_ny self - 1]\<rparr>)"
    using compute_ok [OF assms(2)] None ny el by (simp add: outputs_vonmises)
  ultimately show ?thesis by blast
next
  case (Some a)
  have "compute api (self, inp, out) =
      Inr (self\<lparr>self_T := self_T self\<rparr>, inp,
           \<lparr>vonmises = calc_vonmises a (nodes inp) (radius inp) (disp inp)
                          (self_E self) (self_G self) (self_x_gl self)\<rparr>)"
    unfolding Some using compute_api [of a self inp out] by (simp add: outputs_vonmises)
  moreover have "compute api (self', inp, out') =
      Inr (self'\<lparr>self_T := self_T self'\<rparr>, inp,
           \<lparr>vonmises = calc_vonmises a (nodes inp) (radius inp) (disp inp)
                          (self_E self) (self_G self) (self_x_gl self)\<rparr>)"
    unfolding Some using compute_api [of a self' inp out'] assms(3-5)
    by (simp add: outputs_vonmises)
  ultimately show ?thesis by blast
qed

theorem evaluate_deterministic_witness:
  "shaped ex_self ex_inputs ex_outputs \<and>
   shaped (ex_self\<lparr>self_T := ((1, 2, 3), (4, 5, 6), (7, 8, 9))\<rparr>) ex_inputs
     \<lparr>vonmises = [(1, 2), (3, 4)]\<rparr> \<and>
   (\<exists>T1 T2 vm.
      compute None (ex_self, ex_inputs, ex_outputs) =
        Inr (ex_self\<lparr>self_T := T1\<rparr>, ex_inputs, \<lparr>vonmises = vm\<rparr>) \<and>
      compute None (ex_self\<lparr>self_T := ((1, 2, 3), (4, 5, 6), (7, 8, 9))\<rparr>, ex_inputs,
                    \<lparr>vonmises = [(1, 2), (3, 4)]\<rparr>) =
        Inr (ex_self\<lparr>self_T := T2\<rparr>, ex_inputs, \<lparr>vonmises = vm\<rparr>))"
proof -
  let ?self' = "ex_self\<lparr>self_T := ((1, 2, 3), (4, 5, 6), (7, 8, 9))\<rparr>"
  have h1: "shaped ex_self ex_inputs ex_outputs"
    by (simp add: shaped_def ex_self_def ex_inputs_def ex_outputs_def initialize_variables_def)
  have h2: "shaped ?self' ex_inputs \<lparr>vonmises = [(1, 2), (3, 4)]\<rparr>"
    by (simp add: shaped_def ex_self_def ex_inputs_def initialize_variables_def)
  have h3: "self_E ?self' = self_E ex_self" "self_G ?self' = self_G ex_self"
    "self_x_gl ?self' = self_x_gl ex_self"
    by simp_all
  show ?thesis
    using evaluate_deterministic [OF h1 h2 h3, of None] h1 h2 by simp
qed

section \<open>Properties of \<open>compute_jacvec_product\<close>\<close>

lemma add2_twice: "add2 (add2 x y) y = add2 x (scale2 2 y)"
  by (cases x; cases y) simp

lemma add3_twice: "add3 (add3 x y) y = add3 x (scale3 2 y)"
  by (cases x; cases y) simp

lemma add6_twice: "add6 (add6 x y) y = add6 x (scale6 2 y)"
  by (cases x; cases y) (simp add: add3_twice)

lemma map2_add2_twice:
  "length acc = length v \<Longrightarrow> map2 add2 (map2 add2 acc v) v = map2 add2 acc (map (scale2 2) v)"
  by (intro nth_equalityI) (simp_all add: add2_twice)

lemma map2_add3_twice:
  "length acc = length v \<Longrightarrow> map2 add3 (map2 add3 acc v) v = map2 add3 acc (map (scale3 2) v)"
  by (intro nth_equalityI) (simp_all add: add3_twice)

lemma map2_add6_twice:
  "length acc = length v \<Longrightarrow> map2 add6 (map2 add6 acc v) v = map2 add6 acc (map (scale6 2) v)"
  by (intro nth_equalityI) (simp_all add: add6_twice)

lemma map2_add_twice:
  "length acc = length v \<Longrightarrow>
   map2 (+) (map2 (+) acc v) v = map2 (+) acc (map ((*) 2) (v :: real list))"
  by (intro nth_equalityI) simp_all

lemma jacvec_fwd:
  assumes "length (fwd_contribution a self inp din) = length (d_vonmises dout)"
  shows "compute_jacvec_product (Some a) self inp out ''fwd'' (din, dout) =
     Inr (din, dout\<lparr>d_vonmises := map2 add2 (d_vonmises dout) (fwd_contribution a self inp din)\<rparr>)"
  using assms
  by (simp add: compute_jacvec_product_def fwd_contribution_def iadd_def bind_err_def Let_def)

lemma jacvec_rev:
  assumes "rev_contribution a self inp out dout = (nb, rb, db)"
    and "length nb = length (d_nodes din)" and "length rb = length (d_radius din)"
    and "length db = length (d_disp din)"
  shows "compute_jacvec_product (Some a) self inp out ''rev'' (din, dout) =
     Inr (din\<lparr>d_nodes := map2 add3 (d_nodes din) nb,
               d_radius := map2 (+) (d_radius din) rb,
               d_disp := map2 add6 (d_disp din) db\<rparr>, dout)"
  using assms
  by (simp add: compute_jacvec_product_def rev_contribution_def iadd_def bind_err_def Let_def)


text \<open>
  C6. Both modes add to the accumulators. With the compiled routines present and
  returning arrays of the shapes of the accumulators, one call in mode \<open>fwd\<close> leaves
  \<open>d_outputs['vonmises']\<close> equal to its prior content plus the contribution of the call,
  and two calls with the same seed leave it equal to its prior content plus twice that
  contribution; likewise in mode \<open>rev\<close> for \<open>d_inputs['nodes']\<close>, \<open>d_inputs['radius']\<close> and
  \<open>d_inputs['disp']\<close>.
\<close>

theorem jacvec_accumulates:
  assumes "length (fwd_contribution a self inp din) = length (d_vonmises dout)"
    and "rev_contribution a self inp out dout = (nb, rb, db)"
    and "length nb = length (d_nodes din)" and "length rb = length (d_radius din)"
    and "length db = length (d_disp din)"
  shows "compute_jacvec_product (Some a) self inp out ''fwd'' (din, dout) =
           Inr (din, dout\<lparr>d_vonmises :=
                  map2 add2 (d_vonmises dout) (fwd_contribution a self inp din)\<rparr>) \<and>
         bind_err (compute_jacvec_product (Some a) self inp out ''fwd'' (din, dout))
             (compute_jacvec_product (Some a) self inp out ''fwd'') =
           Inr (din, dout\<lparr>d_vonmises :=
                  map2 add2 (d_vonmises dout)
                    (map (scale2 2) (fwd_contribution a self inp din))\<rparr>) \<and>
         compute_jacvec_product (Some a) self inp out ''rev'' (din, dout) =
           Inr (din\<lparr>d_nodes := map2 add3 (d_nodes din) nb,
                     d_radius := map2 (+) (d_radius din) rb,
                     d_disp := map2 add6 (d_disp din) db\<rparr>, dout) \<and>
         bind_err (compute_jacvec_product (Some a) self inp out ''rev'' (din, dout))
             (compute_jacvec_product (Some a) self inp out ''rev'') =
           Inr (din\<lparr>d_nodes := map2 add3 (d_nodes din) (map (scale3 2) nb),
                     d_radius := map2 (+) (d_radius din) (map ((*) 2) rb),
                     d_disp := map2 add6 (d_disp din) (map (scale6 2) db)\<rparr>, dout)"
proof -
  let ?jv = "compute_jacvec_product (Some a) self inp out"
  let ?vd = "fwd_contribution a self inp din"
  let ?dout = "dout\<lparr>d_vonmises := map2 add2 (d_vonmises dout) ?vd\<rparr>"
  let ?din = "din\<lparr>d_nodes := map2 add3 (d_nodes din) nb,
                   d_radius := map2 (+) (d_radius din) rb,
                   d_disp := map2 add6 (d_disp din) db\<rparr>"
  have f1: "?jv ''fwd'' (din, dout) = Inr (din, ?dout)"
    using assms(1) by (rule jacvec_fwd)
  have "length (fwd_contribution a self inp din) = length (d_vonmises ?dout)"
    using assms(1) by simp
  then have "?jv ''fwd'' (din, ?dout) =
      Inr (din, ?dout\<lparr>d_vonmises := map2 add2 (d_vonmises ?dout) ?vd\<rparr>)"
    by (rule jacvec_fwd)
  then have f2: "bind_err (?jv ''fwd'' (din, dout)) (?jv ''fwd'') =
      Inr (din, dout\<lparr>d_vonmises := map2 add2 (d_vonmises dout) (map (scale2 2) ?vd)\<rparr>)"
    using f1 assms(1) by (simp add: bind_err_def map2_add2_twice)
  have r1: "?jv ''rev'' (din, dout) = Inr (?din, dout)"
    using assms(2-5) by (rule jacvec_rev)
  have "?jv ''rev'' (?din, dout) =
      Inr (?din\<lparr>d_nodes := map2 add3 (d_nodes ?din) nb,
                 d_radius := map2 (+) (d_radius ?din) rb,
                 d_disp := map2 add6 (d_disp ?din) db\<rparr>, dout)"
    using assms(2-5) by (intro jacvec_rev) simp_all
  then have r2: "bind_err (?jv ''rev'' (din, dout)) (?jv ''rev'') =
      Inr (din\<lparr>d_nodes := map2 add3 (d_nodes din) (map (scale3 2) nb),
                d_radius := map2 (+) (d_radius din) (map ((*) 2) rb),
                d_disp := map2 add6 (d_disp din) (map (scale6 2) db)\<rparr>, dout)"
    using r1 assms(3-5)
    by (simp add: bind_err_def map2_add3_twice map2_add6_twice map2_add_twice)
  from f1 f2 r1 r2 show ?thesis by blast
qed


theorem jacvec_accumulates_witness:
  "compute_jacvec_product (Some ex_api) ex_self ex_inputs ex_outputs ''fwd'' (ex_din, ex_dout) =
     Inr (ex_din, \<lparr>d_vonmises = [(11, 22), (32, 44)]\<rparr>) \<and>
   bind_err
     (compute_jacvec_product (Some ex_api) ex_self ex_inputs ex_outputs ''fwd'' (ex_din, ex_dout))
     (compute_jacvec_product (Some ex_api) ex_self ex_inputs ex_outputs ''fwd'') =
     Inr (ex_din, \<lparr>d_vonmises = [(12, 24), (34, 48)]\<rparr>) \<and>
   compute_jacvec_product (Some ex_api) ex_self ex_inputs ex_outputs ''rev'' (ex_din, ex_dout) =
     Inr (\<lparr>d_nodes = [(2, 2, 2), (3, 3, 3), (4, 4, 4)], d_radius = [11, 32],
           d_disp = [((1, 0, 0), (0, 0, 1)), ((2, 0, 0), (0, 0, 1)), ((1, 0, 0), (0, 0, 2))]\<rparr>,
          ex_dout) \<and>
   bind_err
     (compute_jacvec_product (Some ex_api) ex_self ex_inputs ex_outputs ''rev'' (ex_din, ex_dout))
     (compute_jacvec_product (Some ex_api) ex_self ex_inputs ex_outputs ''rev'') =
     Inr (\<lparr>d_nodes = [(3, 3, 3), (4, 4, 4), (5, 5, 5)], d_radius = [21, 62],
           d_disp = [((2, 0, 0), (0, 0, 2)), ((3, 0, 0), (0, 0, 2)), ((2, 0, 0), (0, 0, 3))]\<rparr>,
          ex_dout)"
proof -
  have f: "fwd_contribution ex_api ex_self ex_inputs ex_din = [(1, 2), (2, 4)]"
    by (simp add: fwd_contribution_def ex_api_def ex_din_def)
  have r: "rev_contribution ex_api ex_self ex_inputs ex_outputs ex_dout =
      ([(1, 1, 1), (1, 1, 1), (1, 1, 1)], [10, 30],
       [((1, 0, 0), (0, 0, 1)), ((1, 0, 0), (0, 0, 1)), ((1, 0, 0), (0, 0, 1))])"
    by (simp add: rev_contribution_def ex_api_def ex_inputs_def ex_dout_def)
  have h1: "length (fwd_contribution ex_api ex_self ex_inputs ex_din) = length (d_vonmises ex_dout)"
    by (simp add: f ex_dout_def)
  have h3: "length [(1, 1, 1), (1, 1, 1), (1, 1, 1 :: real)] = length (d_nodes ex_din)"
    and h4: "length [10, 30 :: real] = length (d_radius ex_din)"
    and h5: "length [((1, 0, 0), (0, 0, 1)), ((1, 0, 0), (0, 0, 1)), ((1, 0, 0), (0, 0, 1 :: real))] =
      length (d_disp ex_din)"
    by (simp_all add: ex_din_def)
  note inst = jacvec_accumulates [OF h1 r h3 h4 h5, unfolded f]
  have e1: "ex_dout\<lparr>d_vonmises := map2 add2 (d_vonmises ex_dout) [(1, 2), (2, 4)]\<rparr> =
      \<lparr>d_vonmises = [(11, 22), (32, 44)]\<rparr>"
    by (simp add: ex_dout_def)
  have e2: "ex_dout\<lparr>d_vonmises :=
        map2 add2 (d_vonmises ex_dout) (map (scale2 2) [(1, 2), (2, 4)])\<rparr> =
      \<lparr>d_vonmises = [(12, 24), (34, 48)]\<rparr>"
    by (simp add: ex_dout_def)
  have e3: "ex_din\<lparr>d_nodes := map2 add3 (d_nodes ex_din) [(1, 1, 1), (1, 1, 1), (1, 1, 1)],
        d_radius := map2 (+) (d_radius ex_din) [10, 30],
        d_disp := map2 add6 (d_disp ex_din)
          [((1, 0, 0), (0, 0, 1)), ((1, 0, 0), (0, 0, 1)), ((1, 0, 0), (0, 0, 1))]\<rparr> =
      \<lparr>d_nodes = [(2, 2, 2), (3, 3, 3), (4, 4, 4)], d_radius = [11, 32],
        d_disp = [((1, 0, 0), (0, 0, 1)), ((2, 0, 0), (0, 0, 1)), ((1, 0, 0), (0, 0, 2))]\<rparr>"
    by (simp add: ex_din_def)
  have e4: "ex_din\<lparr>d_nodes :=
          map2 add3 (d_nodes ex_din) (map (scale3 2) [(1, 1, 1), (1, 1, 1), (1, 1, 1)]),
        d_radius := map2 (+) (d_radius ex_din) (map ((*) 2) [10, 30]),
        d_disp := map2 add6 (d_disp ex_din)
          (map (scale6 2)
            [((1, 0, 0), (0, 0, 1)), ((1, 0, 0), (0, 0, 1)), ((1, 0, 0), (0, 0, 1))])\<rparr> =
      \<lparr>d_nodes = [(3, 3, 3), (4, 4, 4), (5, 5, 5)], d_radius = [21, 62],
        d_disp = [((2, 0, 0), (0, 0, 2)), ((3, 0, 0), (0, 0, 2)), ((2, 0, 0), (0, 0, 3))]\<rparr>"
    by (simp add: ex_din_def)
  show ?thesis
    using inst unfolding e1 e2 e3 e4 .
qed

text \<open>
  C10. Both modes read only the real parts of \<open>nodes\<close>, \<open>radius\<close>, \<open>disp\<close> and
  \<open>vonmises\<close>: two calls whose arrays have the same real parts, with the same seeds,
  accumulators, mode and component, end in the same accumulators (or the same error).
\<close>

theorem jacvec_real_parts:
  assumes "map re3 (nodes inp') = map re3 (nodes inp)"
    and "map Re (radius inp') = map Re (radius inp)"
    and "map re6 (disp inp') = map re6 (disp inp)"
    and "map re2 (vonmises out') = map re2 (vonmises out)"
  shows "compute_jacvec_product api self inp' out' mode ds =
         compute_jacvec_product api self inp out mode ds"
  using assms by (simp add: compute_jacvec_product_def)




theorem jacvec_real_parts_witness:
  "map re3 (nodes ex_inputs_im) = map re3 (nodes ex_inputs) \<and>
   map Re (radius ex_inputs_im) = map Re (radius ex_inputs) \<and>
   map re6 (disp ex_inputs_im) = map re6 (disp ex_inputs) \<and>
   map re2 (vonmises ex_outputs_im) = map re2 (vonmises ex_outputs) \<and>
   nodes ex_inputs_im \<noteq> nodes ex_inputs \<and>
   compute_jacvec_product (Some ex_api) ex_self ex_inputs_im ex_outputs_im ''rev''
     (ex_din, ex_dout) =
   compute_jacvec_product (Some ex_api) ex_self ex_inputs ex_outputs ''rev'' (ex_din, ex_dout)"
proof -
  have h1: "map re3 (nodes ex_inputs_im) = map re3 (nodes ex_inputs)"
    and h2: "map Re (radius ex_inputs_im) = map Re (radius ex_inputs)"
    and h3: "map re6 (disp ex_inputs_im) = map re6 (disp ex_inputs)"
    and h4: "map re2 (vonmises ex_outputs_im) = map re2 (vonmises ex_outputs)"
    by (simp_all add: ex_inputs_im_def ex_inputs_def ex_outputs_im_def ex_outputs_def)
  have ne: "nodes ex_inputs_im \<noteq> nodes ex_inputs"
    by (simp add: ex_inputs_im_def ex_inputs_def complex_eq_iff)
  show ?thesis
    using jacvec_real_parts [OF h1 h2 h3 h4, of "Some ex_api" ex_self "''rev''" "(ex_din, ex_dout)"]
      h1 h2 h3 h4 ne
    by simp
qed

section \<open>The reverse mode as the adjoint of the forward mode\<close>

lemma length_flat2: "length (flat2 xs) = 2 * length xs"
  by (induction xs rule: flat2.induct) simp_all

lemma length_flat3: "length (flat3 xs) = 3 * length xs"
  by (induction xs rule: flat3.induct) simp_all

lemma length_flat6: "length (flat6 xs) = 6 * length xs"
  by (induction xs rule: flat6.induct) simp_all

lemma flat2_unflat2: "length xs = 2 * m \<Longrightarrow> flat2 (unflat2 xs) = xs"
proof (induction xs arbitrary: m rule: unflat2.induct)
  case (1 a b xs)
  then have "length xs = 2 * (m - 1)" by simp
  with 1 show ?case by simp
qed simp_all

lemma flat3_unflat3: "length xs = 3 * m \<Longrightarrow> flat3 (unflat3 xs) = xs"
proof (induction xs arbitrary: m rule: unflat3.induct)
  case (1 a b c xs)
  then have "length xs = 3 * (m - 1)" by simp
  with 1 show ?case by simp
qed (simp_all, presburger+)

lemma flat6_unflat6: "length xs = 6 * m \<Longrightarrow> flat6 (unflat6 xs) = xs"
proof (induction xs arbitrary: m rule: unflat6.induct)
  case (1 a b c d e f xs)
  then have "length xs = 6 * (m - 1)" by simp
  with 1 show ?case by simp
qed (simp_all, presburger+)

lemma length_unflat2: "length xs = 2 * m \<Longrightarrow> length (unflat2 xs) = m"
  using length_flat2 [of "unflat2 xs"] flat2_unflat2 [of xs m] by simp

lemma length_unflat3: "length xs = 3 * m \<Longrightarrow> length (unflat3 xs) = m"
  using length_flat3 [of "unflat3 xs"] flat3_unflat3 [of xs m] by simp

lemma length_unflat6: "length xs = 6 * m \<Longrightarrow> length (unflat6 xs) = m"
  using length_flat6 [of "unflat6 xs"] flat6_unflat6 [of xs m] by simp

lemma dot_sum: "length xs = length ys \<Longrightarrow> dot xs ys = (\<Sum>i < length xs. xs ! i * ys ! i)"
  by (simp add: dot_def sum_list_sum_nth atLeast0LessThan)

lemma tangent_adjoint:
  assumes "length w = m" and "length v = n"
  shows "dot w (spec_tangent J m v) = dot v (spec_adjoint J n w)"
proof -
  have "dot w (spec_tangent J m v) = (\<Sum>k < m. w ! k * (\<Sum>j < n. J k j * v ! j))"
    using assms by (simp add: dot_sum spec_tangent_def)
  also have "\<dots> = (\<Sum>k < m. \<Sum>j < n. v ! j * (J k j * w ! k))"
    by (simp add: sum_distrib_left mult_ac)
  also have "\<dots> = (\<Sum>j < n. \<Sum>k < m. v ! j * (J k j * w ! k))"
    by (rule sum.swap)
  also have "\<dots> = (\<Sum>j < n. v ! j * (\<Sum>k < m. J k j * w ! k))"
    by (simp add: sum_distrib_left)
  also have "\<dots> = dot v (spec_adjoint J n w)"
    using assms by (simp add: dot_sum spec_adjoint_def)
  finally show ?thesis .
qed


lemma length_spec_tangent: "length (spec_tangent J m v) = m"
  by (simp add: spec_tangent_def)

lemma length_spec_adjoint: "length (spec_adjoint J n w) = n"
  by (simp add: spec_adjoint_def)

lemma add2_zero_left: "add2 (0, 0) x = x"
  by (cases x) simp

lemma add3_zero_left: "add3 (0, 0, 0) x = x"
  by (cases x) simp

lemma add6_zero_left: "add6 ((0, 0, 0), (0, 0, 0)) x = x"
  by (cases x) (simp add: add3_zero_left)

lemma add2_zero: "length v = n \<Longrightarrow> map2 add2 (replicate n (0, 0)) v = v"
  by (intro nth_equalityI) (simp_all add: add2_zero_left)

lemma add3_zero: "length v = n \<Longrightarrow> map2 add3 (replicate n (0, 0, 0)) v = v"
  by (intro nth_equalityI) (simp_all add: add3_zero_left)

lemma add6_zero: "length v = n \<Longrightarrow> map2 add6 (replicate n ((0, 0, 0), (0, 0, 0))) v = v"
  by (intro nth_equalityI) (simp_all add: add6_zero_left)

lemma add_zero: "length v = n \<Longrightarrow> map2 (+) (replicate n 0) v = (v :: real list)"
  by (intro nth_equalityI) simp_all


text \<open>
  C7. With the derivative routines of the specification, the reverse mode is the adjoint
  of the forward mode: at every input point, for every seed \<open>s_in\<close> on \<open>nodes\<close>,
  \<open>radius\<close>, \<open>disp\<close> and every seed \<open>s_out\<close> on \<open>vonmises\<close> (of the shapes of the arrays),
  the forward call from zero accumulators yields \<open>fwd\<close>, the reverse call from zero
  accumulators yields \<open>rev\<close>, and the dot product of \<open>s_out\<close> with \<open>fwd\<close> equals the dot
  product of \<open>s_in\<close> with \<open>rev\<close>.
\<close>

theorem reverse_is_adjoint:
  assumes "length (d_nodes s_in) = length (nodes inp)"
    and "length (d_radius s_in) = length (radius inp)"
    and "length (d_disp s_in) = length (disp inp)"
    and "length (d_vonmises s_out) = length (radius inp)"
  shows "\<exists>fwd rev.
      compute_jacvec_product (Some (spec_api val rval jac)) self inp out ''fwd''
          (s_in, zero_d_outputs inp) = Inr (s_in, fwd) \<and>
      compute_jacvec_product (Some (spec_api val rval jac)) self inp out ''rev''
          (zero_d_inputs inp, s_out) = Inr (rev, s_out) \<and>
      dot (flat2 (d_vonmises s_out)) (flat2 (d_vonmises fwd)) = dot (flat_in s_in) (flat_in rev)"
proof -
  let ?a = "spec_api val rval jac"
  let ?J = "jac (map re3 (nodes inp)) (map Re (radius inp)) (map re6 (disp inp))
              (self_E self) (self_G self) (self_x_gl self)"
  let ?m = "2 * length (radius inp)"
  let ?n = "3 * length (nodes inp) + length (radius inp) + 6 * length (disp inp)"
  let ?t = "spec_tangent ?J ?m (flat_in s_in)"
  let ?g = "spec_adjoint ?J ?n (flat2 (d_vonmises s_out))"
  let ?nb = "unflat3 (take (3 * length (nodes inp)) ?g)"
  let ?rb = "take (length (radius inp)) (drop (3 * length (nodes inp)) ?g)"
  let ?db = "unflat6 (drop (3 * length (nodes inp) + length (radius inp)) ?g)"
  have lv: "length (flat_in s_in) = ?n"
    using assms(1-3) by (simp add: flat_in_def length_flat3 length_flat6)
  have lw: "length (flat2 (d_vonmises s_out)) = ?m"
    using assms(4) by (simp add: length_flat2)
  have fc: "fwd_contribution ?a self inp s_in = unflat2 ?t"
    by (simp add: fwd_contribution_def spec_api_def flat_in_def)
  have lt: "length (unflat2 ?t) = length (radius inp)"
    by (rule length_unflat2) (rule length_spec_tangent)
  have "length (fwd_contribution ?a self inp s_in) = length (d_vonmises (zero_d_outputs inp))"
    using lt by (simp add: fc zero_d_outputs_def)
  from jacvec_fwd [OF this, of out]
  have f: "compute_jacvec_product (Some ?a) self inp out ''fwd'' (s_in, zero_d_outputs inp) =
      Inr (s_in, \<lparr>d_vonmises = unflat2 ?t\<rparr>)"
    using lt by (simp add: fc zero_d_outputs_def add2_zero)
  have rc: "rev_contribution ?a self inp out s_out = (?nb, ?rb, ?db)"
    by (simp add: rev_contribution_def spec_api_def Let_def)
  have lg: "length ?g = ?n" by (rule length_spec_adjoint)
  have lnb: "length ?nb = length (nodes inp)"
    by (rule length_unflat3) (simp add: length_spec_adjoint)
  have lrb: "length ?rb = length (radius inp)"
    by (simp add: length_spec_adjoint)
  have ldb: "length ?db = length (disp inp)"
    by (rule length_unflat6) (simp add: length_spec_adjoint)
  have "compute_jacvec_product (Some ?a) self inp out ''rev'' (zero_d_inputs inp, s_out) =
      Inr ((zero_d_inputs inp)\<lparr>d_nodes := map2 add3 (d_nodes (zero_d_inputs inp)) ?nb,
             d_radius := map2 (+) (d_radius (zero_d_inputs inp)) ?rb,
             d_disp := map2 add6 (d_disp (zero_d_inputs inp)) ?db\<rparr>, s_out)"
  proof (rule jacvec_rev [OF rc])
    show "length ?nb = length (d_nodes (zero_d_inputs inp))"
      unfolding lnb by (simp add: zero_d_inputs_def)
    show "length ?rb = length (d_radius (zero_d_inputs inp))"
      unfolding lrb by (simp add: zero_d_inputs_def)
    show "length ?db = length (d_disp (zero_d_inputs inp))"
      unfolding ldb by (simp add: zero_d_inputs_def)
  qed
  then have r: "compute_jacvec_product (Some ?a) self inp out ''rev'' (zero_d_inputs inp, s_out) =
      Inr (\<lparr>d_nodes = ?nb, d_radius = ?rb, d_disp = ?db\<rparr>, s_out)"
    using lnb lrb ldb by (simp add: zero_d_inputs_def add3_zero add6_zero add_zero)
  have ft: "flat2 (unflat2 ?t) = ?t"
    by (rule flat2_unflat2) (rule length_spec_tangent)
  have "flat3 ?nb = take (3 * length (nodes inp)) ?g"
    by (rule flat3_unflat3) (simp add: length_spec_adjoint)
  moreover have "flat6 ?db = drop (3 * length (nodes inp) + length (radius inp)) ?g"
    by (rule flat6_unflat6) (simp add: length_spec_adjoint)
  ultimately have fg: "flat_in \<lparr>d_nodes = ?nb, d_radius = ?rb, d_disp = ?db\<rparr> = ?g"
    by (simp add: flat_in_def flip: drop_drop take_add add.commute)
  have "dot (flat2 (d_vonmises s_out)) ?t = dot (flat_in s_in) ?g"
    using lw lv by (rule tangent_adjoint)
  then have "dot (flat2 (d_vonmises s_out)) (flat2 (d_vonmises \<lparr>d_vonmises = unflat2 ?t\<rparr>)) =
      dot (flat_in s_in) (flat_in \<lparr>d_nodes = ?nb, d_radius = ?rb, d_disp = ?db\<rparr>)"
    by (simp only: fg ft d_outputs.simps)
  with f r show ?thesis by blast
qed

theorem reverse_is_adjoint_witness:
  "length (d_nodes ex_din) = length (nodes ex_inputs) \<and>
   length (d_radius ex_din) = length (radius ex_inputs) \<and>
   length (d_disp ex_din) = length (disp ex_inputs) \<and>
   length (d_vonmises ex_dout) = length (radius ex_inputs) \<and>
   (\<exists>fwd rev.
      compute_jacvec_product (Some ex_spec_api) ex_self ex_inputs ex_outputs ''fwd''
          (ex_din, zero_d_outputs ex_inputs) = Inr (ex_din, fwd) \<and>
      compute_jacvec_product (Some ex_spec_api) ex_self ex_inputs ex_outputs ''rev''
          (zero_d_inputs ex_inputs, ex_dout) = Inr (rev, ex_dout) \<and>
      dot (flat2 (d_vonmises ex_dout)) (flat2 (d_vonmises fwd)) =
        dot (flat_in ex_din) (flat_in rev))"
proof -
  have h1: "length (d_nodes ex_din) = length (nodes ex_inputs)"
    and h2: "length (d_radius ex_din) = length (radius ex_inputs)"
    and h3: "length (d_disp ex_din) = length (disp ex_inputs)"
    and h4: "length (d_vonmises ex_dout) = length (radius ex_inputs)"
    by (simp_all add: ex_din_def ex_dout_def ex_inputs_def)
  show ?thesis
    using reverse_is_adjoint [OF h1 h2 h3 h4, of "\<lambda>n r d E G g. []" "\<lambda>n r d E G g. []" ex_jac
        ex_self ex_outputs] h1 h2 h3 h4
    unfolding ex_spec_api_def by blast
qed

section \<open>Degenerate geometry\<close>

lemma nf_set_rows: "nf_set_row2 (nf_set_row1 (nf_set_row0 T a) b) c = (a, b, c)"
  by (cases T) simp

lemma nf_elem_step_ok:
  assumes "nf_in_range inp vm i"
  shows "nf_elem_step self inp i (T, vm) =
     Inr (nf_frame (nodes inp ! i) (nodes inp ! (i + 1)) (self_x_gl self),
          vm[i := nf_elem_at self inp i])"
  using assms
  by (simp add: nf_in_range_def nf_elem_step_def bind_err_def getitem_def setitem_def Let_def
      nf_set_rows nf_elem_at_def nf_elem_stress_def nf_frame_def split_beta)

lemma nf_compute_loop_ok:
  assumes "\<forall>i\<in>set js. nf_in_range inp vm i"
  shows "\<exists>vm'. nf_compute_loop self inp js (T, vm) = Inr (nf_last_T self inp js T, vm') \<and>
          length vm' = length vm \<and>
          (\<forall>i < length vm'. vm' ! i = (if i \<in> set js then nf_elem_at self inp i else vm ! i))"
  using assms
proof (induction js arbitrary: T vm)
  case Nil
  then show ?case by (simp add: nf_last_T_def)
next
  case (Cons j js)
  let ?T = "nf_frame (nodes inp ! j) (nodes inp ! (j + 1)) (self_x_gl self)"
  let ?vm = "vm[j := nf_elem_at self inp j]"
  from Cons.prems have "nf_in_range inp vm j" by simp
  then have step: "nf_elem_step self inp j (T, vm) = Inr (?T, ?vm)"
    by (rule nf_elem_step_ok)
  from Cons.prems have "\<forall>i\<in>set js. nf_in_range inp ?vm i" by (simp add: nf_in_range_def)
  from Cons.IH [OF this, of ?T] obtain vm' where
    run: "nf_compute_loop self inp js (?T, ?vm) = Inr (nf_last_T self inp js ?T, vm')"
    and len: "length vm' = length ?vm"
    and vals: "\<forall>i < length vm'. vm' ! i =
                 (if i \<in> set js then nf_elem_at self inp i else ?vm ! i)"
    by blast
  have T: "nf_last_T self inp js ?T = nf_last_T self inp (j # js) T"
    by (simp add: nf_last_T_def)
  have "nf_compute_loop self inp (j # js) (T, vm) = Inr (nf_last_T self inp (j # js) T, vm')"
    using step run T by (simp add: bind_err_def)
  moreover have "length vm' = length vm" using len by simp
  moreover have "\<forall>i < length vm'. vm' ! i =
      (if i \<in> set (j # js) then nf_elem_at self inp i else vm ! i)"
    using vals len by (auto simp: nth_list_update)
  ultimately show ?case by blast
qed

lemma nf_compute_ok:
  assumes "nf_shaped self inp vm"
  shows "nf_compute self inp (T, vm) =
     Inr (nf_last_T self inp [0 ..< self_ny self - 1] T,
          map (nf_elem_at self inp) [0 ..< self_ny self - 1])"
proof -
  let ?n = "self_ny self - 1"
  have "\<forall>i\<in>set [0 ..< ?n]. nf_in_range inp vm i"
    using assms by (auto simp: nf_shaped_def nf_in_range_def)
  from nf_compute_loop_ok [OF this, of self T] obtain vm' where
    run: "nf_compute_loop self inp [0 ..< ?n] (T, vm) = Inr (nf_last_T self inp [0 ..< ?n] T, vm')"
    and len: "length vm' = length vm"
    and vals: "\<forall>i < length vm'. vm' ! i =
                 (if i \<in> set [0 ..< ?n] then nf_elem_at self inp i else vm ! i)"
    by blast
  have "vm' = map (nf_elem_at self inp) [0 ..< ?n]"
    using len vals assms by (intro nth_equalityI) (auto simp: nf_shaped_def)
  with run show ?thesis by (simp add: nf_compute_def)
qed


lemma nf_right_None:
  "nf_add a None = None" "nf_sub a None = None" "nf_mul a None = None" "nf_div a None = None"
  by (cases a; simp)+

lemma nf_sub3_fin: "nf_sub3 (fin3 a) (fin3 b) = fin3 (sub3 a b)"
  by (cases a; cases b) simp

lemma nf_cross_fin: "nf_cross (fin3 a) (fin3 b) = fin3 (cross a b)"
  by (cases a; cases b) simp

lemma nf_dot3_fin: "nf_dot3 (fin3 a) (fin3 b) = Some (dot3 a b)"
  by (cases a; cases b) simp

lemma nf_mat_dot_fin: "nf_mat_dot (fin_mat T) (fin3 v) = fin3 (mat_dot T v)"
  by (cases T rule: fin_mat.cases) (simp add: nf_dot3_fin)

lemma fin3_conv: "fin3 v = (Some (fst v), Some (fst (snd v)), Some (snd (snd v)))"
  by (cases v) simp

lemma nf_norm_fin: "nf_norm (fin3 v) = Some (norm_vec v)"
  by (cases v) simp

lemma nf_unit_fin: "norm_vec v \<noteq> 0 \<Longrightarrow> nf_unit (fin3 v) = fin3 (unit v)"
  by (cases v) simp

lemma nf_unit_zero: "norm_vec v = 0 \<Longrightarrow> nf_unit (fin3 v) = (None, None, None)"
  by (cases v) simp

lemma nf_unit_None: "nf_unit (None, None, None) = (None, None, None)"
  by simp

lemma nf_cross_None: "nf_cross x (None, None, None) = (None, None, None)"
  by (cases x) (simp add: nf_right_None)

lemma nf_dot3_None_left: "nf_dot3 (None, None, None) v = None"
  by (cases v) simp

text \<open>A frame whose second row is non-finite gives a non-finite pair.\<close>

lemma nf_stress_of_None_row:
  assumes "nf_frame P0 P1 g = (x, (None, None, None), z)"
  shows "nf_elem_stress E G g P0 P1 r d0 d1 = (None, None)"
proof -
  obtain x0 x1 x2 where x: "x = (x0, x1, x2)" by (cases x)
  obtain z0 z1 z2 where z: "z = (z0, z1, z2)" by (cases z)
  show ?thesis
    unfolding nf_elem_stress_def assms x z
    by (simp add: Let_def split_beta nf_right_None nf_dot3_None_left)
qed

lemma nf_frame_degenerate:
  assumes "degenerate P0 P1"
  shows "\<exists>x z. nf_frame P0 P1 (1, 0, 0) = (x, (None, None, None), z)"
proof -
  obtain a b c where v: "sub3 P1 P0 = (a, b, c)" by (cases "sub3 P1 P0")
  have "cross (sub3 P1 P0) (1, 0, 0) = (0, 0, 0)"
    using assms by (cases P0; cases P1) (auto simp: degenerate_def)
  then have bc: "b = 0" "c = 0" by (simp_all add: v)
  show ?thesis
  proof (cases "a = 0")
    case True
    then have "nf_unit (fin3 (sub3 P1 P0)) = (None, None, None)"
      by (intro nf_unit_zero) (simp add: v bc)
    then show ?thesis
      by (simp add: nf_frame_def nf_sub3_fin Let_def)
  next
    case False
    then have n: "norm_vec (sub3 P1 P0) \<noteq> 0" by (simp add: v bc)
    have x: "nf_unit (fin3 (sub3 P1 P0)) = fin3 (unit (sub3 P1 P0))"
      using n by (rule nf_unit_fin)
    have "cross (unit (sub3 P1 P0)) (1, 0, 0) = (0, 0, 0)" by (simp add: v bc)
    then have y: "nf_unit (nf_cross (fin3 (unit (sub3 P1 P0))) (fin3 (1, 0, 0))) = (None, None, None)"
      by (simp only: nf_cross_fin) (rule nf_unit_zero, simp)
    show ?thesis
      by (simp only: nf_frame_def nf_sub3_fin Let_def x y) blast
  qed
qed

lemma nf_elem_stress_degenerate:
  assumes "degenerate P0 P1"
  shows "nf_elem_stress E G (1, 0, 0) P0 P1 r d0 d1 = (None, None)"
  using nf_frame_degenerate [OF assms] nf_stress_of_None_row by blast

lemma nf_frame_finite:
  assumes "finite_frame P0 P1 g"
  shows "nf_frame P0 P1 g = fin_mat (frame P0 P1 g)"
  using assms
  by (simp add: finite_frame_def nf_frame_def frame_def Let_def nf_sub3_fin nf_unit_fin nf_cross_fin)

lemma nf_elem_stress_finite:
  assumes "finite_frame P0 P1 g"
  shows "nf_elem_stress E G g P0 P1 r d0 d1 = fin2 (elem_stress E G g P0 P1 r d0 d1)"
proof -
  have L: "norm_vec (sub3 P1 P0) \<noteq> 0" using assms by (simp add: finite_frame_def)
  show ?thesis
    unfolding nf_elem_stress_def elem_stress_def nf_frame_finite [OF assms]
    using L
    by (simp add: Let_def split_beta nf_mat_dot_fin nf_sub3_fin nf_norm_fin
        fin3_conv [of "mat_dot T v" for T v])
qed

text \<open>On an element whose norms are not zero, the two models of the loop agree.\<close>

lemma norm_vec_unit_zero: "norm_vec v = 0 \<Longrightarrow> norm_vec (unit v) = 0"
  by (cases v) simp

lemma well_posed_finite_frame:
  assumes "well_posed P0 P1"
  shows "finite_frame P0 P1 (1, 0, 0)"
proof -
  let ?x = "unit (sub3 P1 P0)"
  let ?y = "unit (cross ?x (1, 0, 0))"
  note nz = well_posed_normalizers [OF assms]
  have "orthonormal (frame P0 P1 (1, 0, 0))"
    using nz by (rule orthonormal_frame_general)
  then have "norm_vec (unit (cross ?x ?y)) = 1"
    by (simp add: orthonormal_def frame_def Let_def)
  then have "norm_vec (cross ?x ?y) \<noteq> 0"
    using norm_vec_unit_zero [of "cross ?x ?y"] by auto
  then show ?thesis
    using nz by (simp add: finite_frame_def norm_vec_nonzero)
qed

lemma nf_elem_at_well_posed:
  assumes "self_x_gl self = (1, 0, 0)" and "well_posed (nodes inp ! i) (nodes inp ! (i + 1))"
  shows "nf_elem_at self inp i = fin2 (elem_at self inp i)"
  using nf_elem_stress_finite [OF well_posed_finite_frame [OF assms(2)]] assms(1)
  by (simp add: nf_elem_at_def elem_at_def)

text \<open>
  On a beam whose elements are all well posed, the run on scalars that may be non-finite
  returns the values of the run over the field of complex numbers.
\<close>

lemma nf_compute_well_posed:
  assumes "shaped self inp out" and "self_x_gl self = (1, 0, 0)"
    and "\<forall>i < self_ny self - 1. well_posed (nodes inp ! i) (nodes inp ! (i + 1))"
    and "length vm = self_ny self - 1"
  shows "\<exists>T' self'. nf_compute self inp (T, vm) =
             Inr (T', map fin2 (map (elem_at self inp) [0 ..< self_ny self - 1])) \<and>
           compute None (self, inp, out) =
             Inr (self', inp, \<lparr>vonmises = map (elem_at self inp) [0 ..< self_ny self - 1]\<rparr>)"
proof -
  have sh: "nf_shaped self inp vm"
    using assms(1,4) by (simp add: nf_shaped_def shaped_def)
  have "map (nf_elem_at self inp) [0 ..< self_ny self - 1] =
      map fin2 (map (elem_at self inp) [0 ..< self_ny self - 1])"
    using assms(2,3) by (simp add: nf_elem_at_well_posed)
  then have "nf_compute self inp (T, vm) =
      Inr (nf_last_T self inp [0 ..< self_ny self - 1] T,
           map fin2 (map (elem_at self inp) [0 ..< self_ny self - 1]))"
    using nf_compute_ok [OF sh, of T] by simp
  moreover have "compute None (self, inp, out) =
      Inr (self\<lparr>self_T := last_T self inp [0 ..< self_ny self - 1]\<rparr>, inp,
           \<lparr>vonmises = map (elem_at self inp) [0 ..< self_ny self - 1]\<rparr>)"
    using compute_ok [OF assms(1)] by (simp add: outputs_vonmises)
  ultimately show ?thesis by blast
qed

text \<open>
  C8. On degenerate geometry \<open>compute\<close> (the Python loop) does not raise: on arrays of the
  declared shapes it completes, and for every element that has zero length or an axis
  parallel to \<open>x_gl\<close> both entries it stores in \<open>vonmises[i]\<close> are non-finite, from the
  division by the zero norm in the frame of the element.
\<close>

theorem degenerate_nonfinite:
  assumes "nf_shaped self inp vm" and "self_x_gl self = (1, 0, 0)"
    and "i < self_ny self - 1"
    and "degenerate (nodes inp ! i) (nodes inp ! (i + 1))"
  shows "\<exists>T' vm'. nf_compute self inp (T, vm) = Inr (T', vm') \<and> vm' ! i = (None, None)"
proof -
  let ?T = "nf_last_T self inp [0 ..< self_ny self - 1] T"
  let ?vm = "map (nf_elem_at self inp) [0 ..< self_ny self - 1]"
  have "nf_elem_at self inp i = (None, None)"
    using assms(2,4) by (simp add: nf_elem_at_def nf_elem_stress_degenerate)
  then have "?vm ! i = (None, None)"
    using assms(3) by simp
  moreover have "nf_compute self inp (T, vm) = Inr (?T, ?vm)"
    using assms(1) by (rule nf_compute_ok)
  ultimately show ?thesis by blast
qed

theorem degenerate_nonfinite_witness:
  "nf_shaped ex_self ex_inputs_degenerate (snd ex_nf_state) \<and>
   degenerate (0, 0, 0) (0, 0, 0) \<and> degenerate (0, 0, 0) (2, 0, 0) \<and>
   snd ex_nf_state ! 1 = (Some 7, Some 7) \<and>
   (\<exists>T' vm'. nf_compute ex_self ex_inputs_degenerate ex_nf_state = Inr (T', vm') \<and>
      vm' ! 1 = (None, None))"
proof -
  have h1: "nf_shaped ex_self ex_inputs_degenerate (snd ex_nf_state)"
    by (simp add: nf_shaped_def ex_self_def ex_inputs_degenerate_def ex_inputs_def
        ex_nf_state_def initialize_variables_def)
  have h2: "self_x_gl ex_self = (1, 0, 0)"
    by (simp add: ex_self_def initialize_variables_def)
  have h3: "1 < self_ny ex_self - 1"
    by (simp add: ex_self_def initialize_variables_def)
  have d0: "degenerate (0, 0, 0) (0, 0, 0)" and d1: "degenerate (0, 0, 0) (2, 0, 0)"
    by (simp_all add: degenerate_def)
  have h4: "degenerate (nodes ex_inputs_degenerate ! 1) (nodes ex_inputs_degenerate ! (1 + 1))"
    using d1 by (simp add: ex_inputs_degenerate_def)
  have s: "ex_nf_state = (fst ex_nf_state, snd ex_nf_state)" by simp
  have v: "snd ex_nf_state ! 1 = (Some 7, Some 7)"
    by (simp add: ex_nf_state_def)
  show ?thesis
    using degenerate_nonfinite [OF h1 h2 h3 h4, of "fst ex_nf_state"] h1 d0 d1 v by simp
qed

end
